theory Spec2Isabelle
  imports Complex_Main "HOL-Library.Word"
begin

section \<open>FP8 GEMM binding: csrc/quantization/fp8/amd/gemm_kernel.cu\<close>

text \<open>
  The file holds two entry points, \<open>create_workspace\<close> and \<open>fp8_mm\<close>, over two
  file-level variables. Everything the vendor library and the runtime answer is a
  field of the record \<open>Library\<close>; every call into them is logged, in order, as a
  \<open>vendor_call\<close>; every way of leaving a function is a value of \<open>outcome\<close>.
\<close>

subsection \<open>Machine types\<close>

type_synonym int64_t = "64 word"
type_synonym size_t = "64 word"
type_synonym int_t = "32 word"
type_synonym pointer = "64 word"

definition nullptr :: pointer where
  "nullptr = 0"

text \<open>\<open>std::max<int64_t>(x, y)\<close> is \<open>(x < y) ? y : x\<close> on signed values.\<close>

definition max_int64 :: "int64_t \<Rightarrow> int64_t \<Rightarrow> int64_t" where
  "max_int64 x y = (if x <s y then y else x)"

subsection \<open>Tensors\<close>

datatype ScalarType =
    kFloat8_e4m3fnuz | kFloat8_e4m3fn | kFloat8_e5m2 | kFloat8_e5m2fnuz
  | kFloat16 | kBFloat16 | kFloat | kDouble | kInt8 | kInt32 | kInt64

text \<open>
  What \<open>fp8_mm\<close> can ask of a \<open>torch::Tensor\<close>: \<open>dtype()\<close>, \<open>sizes()\<close>,
  \<open>strides()\<close>, \<open>data_ptr()\<close>; \<open>storage\<close> is the bytes the pointer leads to,
  which live on the device.
\<close>

record Tensor =
  dtype :: ScalarType
  sizes :: "int64_t list"
  strides :: "int64_t list"
  data_ptr :: pointer
  storage :: "8 word list"

definition tensor_dim :: "Tensor \<Rightarrow> nat" where
  "tensor_dim t = length (sizes t)"

subsection \<open>The vendor library's types\<close>

datatype hipblasOperation_t = HIPBLAS_OP_N | HIPBLAS_OP_T

datatype hipDataType = HIP_R_8F_E4M3_FNUZ | HIP_R_16BF | HIP_R_16F

datatype hipblasComputeType_t = HIPBLAS_COMPUTE_32F

datatype hipblasStatus_t = HIPBLAS_STATUS_SUCCESS | HIPBLAS_STATUS_FAILURE nat

datatype hipError_t = hipSuccess | hipFailure nat

datatype GemmEpilogue = HIPBLASLT_EPILOGUE_DEFAULT

record GemmPreference =
  maxWorkspaceBytes :: size_t

record GemmInputs =
  in_a :: pointer
  in_b :: pointer
  in_c :: pointer
  in_d :: pointer
  alpha :: real
  beta :: real
  scaleA :: pointer
  scaleB :: pointer
  scaleD :: pointer

record GemmProblemType =
  op_a :: hipblasOperation_t
  op_b :: hipblasOperation_t
  type_a :: hipDataType
  type_b :: hipDataType
  type_c :: hipDataType
  type_d :: hipDataType
  type_compute :: hipblasComputeType_t

text \<open>The arguments of \<open>gemm.setProblem\<close>, in the order of the call.\<close>

record setProblem_args =
  sp_m :: int64_t
  sp_n :: int64_t
  sp_k :: int64_t
  sp_batch_count :: int64_t
  sp_lda :: int64_t
  sp_ldb :: int64_t
  sp_ldc :: int64_t
  sp_ldd :: int64_t
  sp_strideA :: int64_t
  sp_strideB :: int64_t
  sp_strideC :: int64_t
  sp_strideD :: int64_t
  sp_epilogue :: GemmEpilogue
  sp_inputs :: GemmInputs
  sp_problemtype :: GemmProblemType

record hipblasLtMatmulHeuristicResult_t =
  algo :: nat

subsection \<open>Calls, outcomes, environment, state\<close>

datatype vendor_call =
    Call_hipMalloc size_t
  | Call_setMaxWorkspaceBytes size_t
  | Call_Gemm nat GemmProblemType
  | Call_setProblem setProblem_args
  | Call_algoGetHeuristic int_t GemmPreference
  | Call_getIndexFromAlgo nat
  | Call_getAlgosFromIndex nat "int_t list"
  | Call_initialize nat pointer
  | Call_run nat
  | Read_past_end string

text \<open>
  \<open>Read_past_end v\<close> is the read of \<open>v[0]\<close> in a vector \<open>v\<close> that has no element
  (\<open>std::vector::operator[]\<close> is unchecked).

  A line on stderr, \<open>"...: '%s'(%d) at ..."\<close>: first the status whose name \<open>%s\<close> prints,
  then the status that \<open>%d\<close> prints.
\<close>

datatype stderr_line =
    Hip_error hipError_t hipError_t
  | HipBLASLt_error hipblasStatus_t hipblasStatus_t

datatype c10_error = Torch_check string | Cublas_check hipblasStatus_t

datatype undefined_behaviour = Uninitialized_read | Out_of_bounds_read

text \<open>
  \<open>Check_error\<close>: \<open>TORCH_CHECK\<close> or \<open>TORCH_CUDABLAS_CHECK\<close> throws \<open>c10::Error\<close>
  (both are macros of the tensor library; the second wraps the first around a comparison
  of the status with success).
  \<open>Exit_failure\<close>: \<open>CHECK_HIP_ERROR\<close> or \<open>CHECK_HIPBLASLT_ERROR\<close> prints the line to
  stderr and calls \<open>exit(EXIT_FAILURE)\<close>.
  \<open>Assert_aborted\<close>: \<open>assert(false && ...)\<close> with assertions compiled in.
\<close>

datatype outcome =
    Returned
  | Check_error c10_error
  | Exit_failure stderr_line
  | Assert_aborted
  | Undefined_behaviour undefined_behaviour

text \<open>
  The answers of the world outside the file during one invocation. \<open>NDEBUG\<close> says
  whether \<open>assert\<close> is compiled out. \<open>CHECK_HIP_ERROR(error)\<close> and
  \<open>CHECK_HIPBLASLT_ERROR(error)\<close> (lines 19-35) paste \<open>error\<close> three times: in the
  comparison with success, in the argument of \<open>hipGetErrorString\<close> or
  \<open>hipblasStatusToString\<close>, and as the argument of \<open>%d\<close>. A call under one of them is
  therefore written three times in the expansion, and the first argument of its answer
  says which of the three is answered: 0 the comparison, 1 the one whose name is printed,
  2 the one whose number is printed. \<open>reserved_storage\<close> is what the storage reserved on
  line 187 holds where no element was constructed.
\<close>

record Library =
  NDEBUG :: bool
  getenv :: "string \<Rightarrow> string option"
  getCurrentCUDABlasLtHandle :: nat
  getCurrentCUDAStream :: nat
  hipMalloc :: "nat \<Rightarrow> size_t \<Rightarrow> hipError_t \<times> pointer"
  setProblem :: "nat \<Rightarrow> setProblem_args \<Rightarrow> hipblasStatus_t"
  algoGetHeuristic ::
    "nat \<Rightarrow> int_t \<Rightarrow> GemmPreference \<Rightarrow>
     hipblasStatus_t \<times> hipblasLtMatmulHeuristicResult_t list"
  reserved_storage :: hipblasLtMatmulHeuristicResult_t
  getIndexFromAlgo :: "nat \<Rightarrow> int_t"
  getAlgosFromIndex ::
    "nat \<Rightarrow> int_t list \<Rightarrow> hipblasStatus_t \<times> hipblasLtMatmulHeuristicResult_t list"
  initialize :: "nat \<Rightarrow> nat \<Rightarrow> pointer \<Rightarrow> hipblasStatus_t"
  run :: "nat \<Rightarrow> nat \<Rightarrow> hipblasStatus_t"

text \<open>
  \<open>static void* workspace = nullptr; static size_t workspace_size;\<close>
  (a static without initializer starts at zero).
\<close>

record globals =
  workspace :: pointer
  workspace_size :: size_t

definition initial_globals :: globals where
  "initial_globals = \<lparr>workspace = nullptr, workspace_size = 0\<rparr>"

subsection \<open>The two status macros\<close>

text \<open>
  Lines 19-35. \<open>error k\<close> is the status that the \<open>k\<close>-th copy of the pasted call gives,
  \<open>call\<close> is the call as it is logged. With success at the comparison the call was made
  once and the function goes on (\<open>None\<close>); otherwise the two copies among the arguments
  of \<open>fprintf\<close> are called as well, the line is printed from what they give, and the
  process exits.
\<close>

definition CHECK_HIP_ERROR ::
  "(nat \<Rightarrow> hipError_t) \<Rightarrow> vendor_call \<Rightarrow> outcome option \<times> vendor_call list" where
  "CHECK_HIP_ERROR error call =
     (if error 0 \<noteq> hipSuccess
      then (Some (Exit_failure (Hip_error (error 1) (error 2))), [call, call, call])
      else (None, [call]))"

definition CHECK_HIPBLASLT_ERROR ::
  "(nat \<Rightarrow> hipblasStatus_t) \<Rightarrow> vendor_call \<Rightarrow> outcome option \<times> vendor_call list" where
  "CHECK_HIPBLASLT_ERROR error call =
     (if error 0 \<noteq> HIPBLAS_STATUS_SUCCESS
      then (Some (Exit_failure (HipBLASLt_error (error 1) (error 2))), [call, call, call])
      else (None, [call]))"

subsection \<open>\<open>get_hipblaslt_workspace_size\<close> and \<open>create_workspace\<close>\<close>

text \<open>
  \<open>std::stoi(str)\<close> in base 10: leading white space is skipped, one sign is taken,
  then the longest run of decimal digits; no digit throws \<open>std::invalid_argument\<close>, a
  value outside \<open>int\<close> throws \<open>std::out_of_range\<close>; what follows the digits is ignored.
\<close>

datatype stoi_error = invalid_argument | out_of_range

definition isspace :: "char \<Rightarrow> bool" where
  "isspace c = (of_char c = (32::nat) \<or> (9 \<le> (of_char c :: nat) \<and> (of_char c :: nat) \<le> 13))"

definition isdigit :: "char \<Rightarrow> bool" where
  "isdigit c = (48 \<le> (of_char c :: nat) \<and> (of_char c :: nat) \<le> 57)"

definition digits_value :: "string \<Rightarrow> int" where
  "digits_value ds = foldl (\<lambda>acc c. 10 * acc + (int (of_char c) - 48)) 0 ds"

definition stoi :: "string \<Rightarrow> stoi_error + int" where
  "stoi str =
     (let s1 = dropWhile isspace str;
          neg = (s1 \<noteq> [] \<and> hd s1 = CHR ''-'');
          s2 = (if s1 \<noteq> [] \<and> (hd s1 = CHR ''-'' \<or> hd s1 = CHR ''+'') then tl s1 else s1);
          ds = takeWhile isdigit s2
      in if ds = [] then Inl invalid_argument
         else let v = (if neg then - digits_value ds else digits_value ds)
              in if v < - (2 ^ 31) \<or> 2 ^ 31 - 1 < v then Inl out_of_range else Inr v)"

text \<open>
  Lines 42-60. The two \<open>catch\<close> blocks only warn and leave the default in place.
  The \<open>int\<close> is converted to \<open>size_t\<close> by the assignment.
\<close>

definition get_hipblaslt_workspace_size :: "Library \<Rightarrow> size_t" where
  "get_hipblaslt_workspace_size L =
     (let env = getenv L ''HIPBLASLT_WORKSPACE_SIZE'';
          workspace_size0 = (32 * 1024 :: size_t);
          workspace_size1 =
            (case env of
               None \<Rightarrow> workspace_size0
             | Some str \<Rightarrow>
                 (case stoi str of
                    Inr v \<Rightarrow> word_of_int v
                  | Inl invalid_argument \<Rightarrow> workspace_size0
                  | Inl out_of_range \<Rightarrow> workspace_size0))
      in workspace_size1 * 1024)"

text \<open>
  Lines 62-66. The comparison \<open>workspace_size > 0\<close> is unsigned. \<open>hipMalloc\<close> answers
  with its status and with the pointer it stores in \<open>workspace\<close>. When the process exits,
  the state given is that before the first \<open>hipMalloc\<close>: no state outlives the exit, and
  the order in which the two copies among the arguments of \<open>fprintf\<close> are evaluated is
  not fixed.
\<close>

definition create_workspace :: "Library \<Rightarrow> globals \<Rightarrow> outcome \<times> vendor_call list \<times> globals" where
  "create_workspace L g =
     (let g1 = g\<lparr>workspace_size := get_hipblaslt_workspace_size L\<rparr>
      in if 0 < workspace_size g1
         then (case CHECK_HIP_ERROR (\<lambda>k. fst (hipMalloc L k (workspace_size g1)))
                      (Call_hipMalloc (workspace_size g1)) of
                 (Some ended, calls) \<Rightarrow> (ended, calls, g1)
               | (None, calls) \<Rightarrow>
                   (Returned, calls,
                    g1\<lparr>workspace := snd (hipMalloc L 0 (workspace_size g1))\<rparr>))
         else (Returned, [], g1))"

subsection \<open>\<open>fp8_mm\<close>\<close>

text \<open>
  Lines 101-110 (for \<open>b\<close>) and 111-120 (for \<open>a\<close>) are the same chain on the strides and
  sizes of one tensor; \<open>None\<close> is the flag left unassigned by the last branch.
\<close>

definition infer_transpose :: "int64_t list \<Rightarrow> int64_t list \<Rightarrow> bool option" where
  "infer_transpose x_strides x_sizes =
     (if x_strides ! 0 = 1 \<and> max_int64 1 (x_sizes ! 0) <=s x_strides ! 1 then Some False
      else if x_strides ! 1 = 1 \<and> max_int64 1 (x_sizes ! 1) <=s x_strides ! 0 then Some True
      else None)"

definition transpose_result :: bool where
  "transpose_result = True"

definition hipblas_op :: "bool \<Rightarrow> hipblasOperation_t" where
  "hipblas_op flag = (if flag then HIPBLAS_OP_T else HIPBLAS_OP_N)"

text \<open>
  Lines 184-193: the heuristic branch. It gives back the new \<open>algo_idx\<close> (the \<open>int\<close> of
  \<open>getIndexFromAlgo\<close> widened to \<open>int64_t\<close>) or the way the function ends. Element 0 of
  the vector is read on line 191, the emptiness check is on line 192. The vector has
  storage for one element (line 187), so the read of element 0 of an empty vector yields
  what that storage holds, and the function goes on with it.
\<close>

definition fp8_mm_select ::
  "Library \<Rightarrow> GemmPreference \<Rightarrow> int64_t \<Rightarrow> (outcome + int64_t) \<times> vendor_call list" where
  "fp8_mm_select L gemmPref algo_idx =
     (if algo_idx = 0
      then (let request_solutions = (1 :: int_t);
                heuristicResult = snd (algoGetHeuristic L 0 request_solutions gemmPref)
            in case CHECK_HIPBLASLT_ERROR
                      (\<lambda>k. fst (algoGetHeuristic L k request_solutions gemmPref))
                      (Call_algoGetHeuristic request_solutions gemmPref) of
                 (Some ended, c1) \<Rightarrow> (Inl ended, c1)
               | (None, c1) \<Rightarrow>
                   (let element0 = (case heuristicResult of
                                      [] \<Rightarrow> reserved_storage L
                                    | h # _ \<Rightarrow> h);
                        c2 = c1 @
                             (if heuristicResult = [] then [Read_past_end ''heuristicResult'']
                              else []) @
                             [Call_getIndexFromAlgo (algo element0)];
                        algo_idx1 = (scast (getIndexFromAlgo L (algo element0)) :: int64_t)
                    in if heuristicResult = []
                       then (Inl (Check_error (Torch_check ''No valid solution found!'')), c2)
                       else (Inr algo_idx1, c2)))
      else (Inr algo_idx, []))"

text \<open>
  Lines 194-201. \<open>algoIndex\<close> is a \<open>std::vector<int>\<close>: the assignment narrows the
  \<open>int64_t\<close> to its low 32 bits. \<open>TORCH_CUDABLAS_CHECK\<close> evaluates its argument once.
  \<open>tmpAlgo\<close> has no storage of its own: the read of element 0 of an empty \<open>tmpAlgo\<close> is
  where the model stops.
\<close>

definition fp8_mm_launch ::
  "Library \<Rightarrow> globals \<Rightarrow> nat \<Rightarrow> nat \<Rightarrow> int64_t \<Rightarrow> outcome \<times> vendor_call list" where
  "fp8_mm_launch L g handle stream algo_idx =
     (let algoIndex = [ucast algo_idx :: int_t];
          c1 = [Call_getAlgosFromIndex handle algoIndex]
      in case getAlgosFromIndex L handle algoIndex of
           (status, tmpAlgo) \<Rightarrow>
             if status \<noteq> HIPBLAS_STATUS_SUCCESS
             then (Check_error (Cublas_check status), c1)
             else (case tmpAlgo of
                     [] \<Rightarrow> (Undefined_behaviour Out_of_bounds_read, c1)
                   | t # _ \<Rightarrow>
                       (case CHECK_HIPBLASLT_ERROR (\<lambda>k. initialize L k (algo t) (workspace g))
                               (Call_initialize (algo t) (workspace g)) of
                          (Some ended, c2) \<Rightarrow> (ended, c1 @ c2)
                        | (None, c2) \<Rightarrow>
                            (case CHECK_HIPBLASLT_ERROR (\<lambda>k. run L k stream) (Call_run stream) of
                               (Some ended, c3) \<Rightarrow> (ended, c1 @ c2 @ c3)
                             | (None, c3) \<Rightarrow> (Returned, c1 @ c2 @ c3)))))"

text \<open>Lines 89-96, after the check of the output dtype on lines 85-88.\<close>

definition hipblas_out_type :: "ScalarType \<Rightarrow> hipDataType" where
  "hipblas_out_type out_dtype =
     (if out_dtype = kFloat8_e4m3fnuz then HIP_R_8F_E4M3_FNUZ
      else if out_dtype = kBFloat16 then HIP_R_16BF
      else HIP_R_16F)"

text \<open>
  Lines 122-179: what \<open>gemm.setProblem\<close> is given on line 181. \<open>transpose_a0\<close> and
  \<open>transpose_b0\<close> are the flags of \<open>a\<close> and \<open>b\<close> from lines 101-120.
  \<open>gemm.getProblemTypes()\<close> gives back what the constructor on line 152 was given.
\<close>

definition fp8_mm_args ::
  "Tensor \<Rightarrow> Tensor \<Rightarrow> Tensor \<Rightarrow> Tensor \<Rightarrow> Tensor \<Rightarrow> Tensor option \<Rightarrow> int64_t \<Rightarrow>
   hipDataType \<Rightarrow> bool \<Rightarrow> bool \<Rightarrow> setProblem_args" where
  "fp8_mm_args a b result scale_a scale_b scale_result padding_size out_type
       transpose_a0 transpose_b0 =
     (let tmp = transpose_a0;
          transpose_a = (if transpose_result then \<not> transpose_b0 else transpose_a0);
          transpose_b = (if transpose_result then \<not> tmp else transpose_b0);
          a_sizes = (if transpose_result then sizes b else sizes a);
          b_sizes = (if transpose_result then sizes a else sizes b);
          m = a_sizes ! (if transpose_result then 1 else 0);
          k = a_sizes ! (if transpose_result then 0 else 1) - padding_size;
          n = b_sizes ! (if transpose_result then 0 else 1);
          d_a = data_ptr (if transpose_result then b else a);
          d_b = data_ptr (if transpose_result then a else b);
          d_d = data_ptr result;
          d_scale_a = (if transpose_result then data_ptr scale_a else data_ptr scale_a);
          d_scale_b = (if transpose_result then data_ptr scale_b else data_ptr scale_b);
          d_scale_d = (case scale_result of Some t \<Rightarrow> data_ptr t | None \<Rightarrow> nullptr);
          problem = \<lparr>op_a = hipblas_op transpose_a, op_b = hipblas_op transpose_b,
                     type_a = HIP_R_8F_E4M3_FNUZ, type_b = HIP_R_8F_E4M3_FNUZ,
                     type_c = out_type, type_d = out_type,
                     type_compute = HIPBLAS_COMPUTE_32F\<rparr>;
          inputs = \<lparr>in_a = d_a, in_b = d_b, in_c = d_d, in_d = d_d, alpha = 1, beta = 0,
                    scaleA = d_scale_a, scaleB = d_scale_b, scaleD = d_scale_d\<rparr>;
          lda = (if op_a problem = HIPBLAS_OP_N then m else k + padding_size);
          ldb = (if op_b problem = HIPBLAS_OP_N then k else n);
          ldc = m;
          strideA = m * (k + padding_size);
          strideB = n * k;
          strideC = m * n
      in \<lparr>sp_m = m, sp_n = n, sp_k = k, sp_batch_count = 1,
          sp_lda = lda, sp_ldb = ldb, sp_ldc = ldc, sp_ldd = ldc,
          sp_strideA = strideA, sp_strideB = strideB,
          sp_strideC = strideC, sp_strideD = strideC,
          sp_epilogue = HIPBLASLT_EPILOGUE_DEFAULT,
          sp_inputs = inputs, sp_problemtype = problem\<rparr>)"

text \<open>
  Lines 122-201 in the order of their calls. \<open>ta\<close> and \<open>tb\<close> are \<open>transpose_a\<close> and
  \<open>transpose_b\<close> as lines 101-120 left them, \<open>None\<close> when unassigned; line 123 reads
  the first and line 124 the second.
\<close>

definition fp8_mm_problem ::
  "Library \<Rightarrow> globals \<Rightarrow> Tensor \<Rightarrow> Tensor \<Rightarrow> Tensor \<Rightarrow> Tensor \<Rightarrow> Tensor \<Rightarrow> Tensor option \<Rightarrow>
   int64_t \<Rightarrow> int64_t \<Rightarrow> hipDataType \<Rightarrow> bool option \<Rightarrow> bool option \<Rightarrow> outcome \<times> vendor_call list" where
  "fp8_mm_problem L g a b result scale_a scale_b scale_result algo_idx padding_size
       out_type ta tb =
     (case (ta, tb) of
        (Some transpose_a0, Some transpose_b0) \<Rightarrow>
          (let args = fp8_mm_args a b result scale_a scale_b scale_result padding_size out_type
                        transpose_a0 transpose_b0;
               handle = getCurrentCUDABlasLtHandle L;
               stream = getCurrentCUDAStream L;
               gemmPref = \<lparr>maxWorkspaceBytes = workspace_size g\<rparr>;
               c0 = [Call_setMaxWorkspaceBytes (workspace_size g),
                     Call_Gemm handle (sp_problemtype args)]
           in case CHECK_HIPBLASLT_ERROR (\<lambda>k. setProblem L k args) (Call_setProblem args) of
                (Some ended, c1) \<Rightarrow> (ended, c0 @ c1)
              | (None, c1) \<Rightarrow>
                  (case fp8_mm_select L gemmPref algo_idx of
                     (Inl ended, c2) \<Rightarrow> (ended, c0 @ c1 @ c2)
                   | (Inr algo_idx1, c2) \<Rightarrow>
                       (case fp8_mm_launch L g handle stream algo_idx1 of
                          (ended, c3) \<Rightarrow> (ended, c0 @ c1 @ c2 @ c3))))
      | _ \<Rightarrow> (Undefined_behaviour Uninitialized_read, []))"

text \<open>
  Lines 68-120, then the rest. \<open>ArrayRef::operator[]\<close> is unchecked: the sizes are read
  after the check of \<open>dim()\<close>; a tensor has as many strides as sizes, and the model ends
  in undefined behaviour for a record that has not. The state is returned as it came:
  no statement of \<open>fp8_mm\<close> assigns \<open>workspace\<close> or \<open>workspace_size\<close>.
\<close>

definition fp8_mm ::
  "Library \<Rightarrow> Tensor \<Rightarrow> Tensor \<Rightarrow> Tensor \<Rightarrow> Tensor \<Rightarrow> Tensor \<Rightarrow> Tensor option \<Rightarrow>
   int64_t \<Rightarrow> int64_t \<Rightarrow> globals \<Rightarrow> outcome \<times> vendor_call list \<times> globals" where
  "fp8_mm L a b result scale_a scale_b scale_result algo_idx padding_size g =
     (if \<not> (dtype a = kFloat8_e4m3fnuz \<and> dtype b = kFloat8_e4m3fnuz)
      then (Check_error (Torch_check ''The input tensors type should be float8_e4m3fnuz.''), [], g)
      else if \<not> (tensor_dim a = 2 \<and> tensor_dim b = 2)
      then (Check_error (Torch_check ''Input tensors must be 2-D.''), [], g)
      else if \<not> (sizes a ! 1 = sizes b ! 0 - padding_size)
      then (Check_error (Torch_check ''a dim 1 must match b dim 0.''), [], g)
      else
        (let out_dtype = dtype result
         in if \<not> (out_dtype = kFloat8_e4m3fnuz \<or> out_dtype = kFloat16 \<or> out_dtype = kBFloat16)
            then (Check_error (Torch_check
                    ''Only float16, bfloat16 or float8_e4m3fnuz are supported as the output dtype.''),
                  [], g)
            else if length (strides a) \<noteq> 2 \<or> length (strides b) \<noteq> 2
            then (Undefined_behaviour Out_of_bounds_read, [], g)
            else
              (let transpose_b = infer_transpose (strides b) (sizes b)
               in if transpose_b = None \<and> \<not> NDEBUG L then (Assert_aborted, [], g)
                  else
                    (let transpose_a = infer_transpose (strides a) (sizes a)
                     in if transpose_a = None \<and> \<not> NDEBUG L then (Assert_aborted, [], g)
                        else
                          (case fp8_mm_problem L g a b result scale_a scale_b scale_result
                                  algo_idx padding_size (hipblas_out_type out_dtype)
                                  transpose_a transpose_b of
                             (ended, calls) \<Rightarrow> (ended, calls, g))))))"

subsection \<open>A caller\<close>

text \<open>
  One invocation with its arguments and the answers it meets, and a caller that makes
  such invocations one after the other on the same file-level variables.
\<close>

record fp8_mm_call =
  c_library :: Library
  c_a :: Tensor
  c_b :: Tensor
  c_result :: Tensor
  c_scale_a :: Tensor
  c_scale_b :: Tensor
  c_scale_result :: "Tensor option"
  c_algo_idx :: int64_t
  c_padding_size :: int64_t

fun fp8_mm_calls ::
  "fp8_mm_call list \<Rightarrow> globals \<Rightarrow> (outcome \<times> vendor_call list) list \<times> globals" where
  "fp8_mm_calls [] g = ([], g)"
| "fp8_mm_calls (c # cs) g =
     (case fp8_mm (c_library c) (c_a c) (c_b c) (c_result c) (c_scale_a c) (c_scale_b c)
             (c_scale_result c) (c_algo_idx c) (c_padding_size c) g of
        (ended, calls, g1) \<Rightarrow>
          (case fp8_mm_calls cs g1 of (rs, g2) \<Rightarrow> ((ended, calls) # rs, g2)))"

subsection \<open>Vocabulary of the properties\<close>

definition outcome_of :: "outcome \<times> vendor_call list \<times> globals \<Rightarrow> outcome" where
  "outcome_of r = fst r"

definition calls_of :: "outcome \<times> vendor_call list \<times> globals \<Rightarrow> vendor_call list" where
  "calls_of r = fst (snd r)"

definition globals_of :: "outcome \<times> vendor_call list \<times> globals \<Rightarrow> globals" where
  "globals_of r = snd (snd r)"

text \<open>The four requirements of lines 77-88 on the tensor arguments.\<close>

definition fp8_mm_requires :: "Tensor \<Rightarrow> Tensor \<Rightarrow> Tensor \<Rightarrow> int64_t \<Rightarrow> bool" where
  "fp8_mm_requires a b result padding_size =
     (dtype a = kFloat8_e4m3fnuz \<and> dtype b = kFloat8_e4m3fnuz \<and>
      tensor_dim a = 2 \<and> tensor_dim b = 2 \<and>
      sizes a ! 1 = sizes b ! 0 - padding_size \<and>
      (dtype result = kFloat8_e4m3fnuz \<or> dtype result = kFloat16 \<or> dtype result = kBFloat16))"

text \<open>The errors with which the checks of lines 77-88 fail.\<close>

definition argument_check_error :: "outcome \<Rightarrow> bool" where
  "argument_check_error r =
     (r = Check_error (Torch_check ''The input tensors type should be float8_e4m3fnuz.'') \<or>
      r = Check_error (Torch_check ''Input tensors must be 2-D.'') \<or>
      r = Check_error (Torch_check ''a dim 1 must match b dim 0.'') \<or>
      r = Check_error (Torch_check
            ''Only float16, bfloat16 or float8_e4m3fnuz are supported as the output dtype.''))"

text \<open>The function of the library or the runtime that a logged call entered.\<close>

fun call_name :: "vendor_call \<Rightarrow> string" where
  "call_name (Call_hipMalloc _) = ''hipMalloc''"
| "call_name (Call_setMaxWorkspaceBytes _) = ''setMaxWorkspaceBytes''"
| "call_name (Call_Gemm _ _) = ''Gemm''"
| "call_name (Call_setProblem _) = ''setProblem''"
| "call_name (Call_algoGetHeuristic _ _) = ''algoGetHeuristic''"
| "call_name (Call_getIndexFromAlgo _) = ''getIndexFromAlgo''"
| "call_name (Call_getAlgosFromIndex _ _) = ''getAlgosFromIndex''"
| "call_name (Call_initialize _ _) = ''initialize''"
| "call_name (Call_run _) = ''run''"
| "call_name (Read_past_end _) = ''operator[]''"

text \<open>
  The index of the algorithm asked of \<open>getAlgosFromIndex\<close>: that of the first solution of
  the heuristic when \<open>algo_idx\<close> is 0, the caller's \<open>algo_idx\<close> as an \<open>int\<close> otherwise;
  \<open>None\<close> when the heuristic fails or finds nothing.
\<close>

definition chosen_index :: "Library \<Rightarrow> GemmPreference \<Rightarrow> int64_t \<Rightarrow> int_t option" where
  "chosen_index L pref algo_idx =
     (if algo_idx = 0
      then (case algoGetHeuristic L 0 1 pref of
              (status, []) \<Rightarrow> None
            | (status, r # rs) \<Rightarrow>
                if status = HIPBLAS_STATUS_SUCCESS then Some (getIndexFromAlgo L (algo r)) else None)
      else Some (ucast algo_idx))"

subsection \<open>Concrete inputs\<close>

text \<open>
  A library in which every call succeeds, and a 2 x 4 row-major \<open>a\<close> against a 4 x 3
  column-major \<open>b\<close>.
\<close>

definition example_library :: Library where
  "example_library =
     \<lparr>NDEBUG = False, getenv = (\<lambda>_. None),
      getCurrentCUDABlasLtHandle = 7, getCurrentCUDAStream = 3,
      hipMalloc = (\<lambda>_ _. (hipSuccess, 4096)),
      setProblem = (\<lambda>_ _. HIPBLAS_STATUS_SUCCESS),
      algoGetHeuristic = (\<lambda>_ _ _. (HIPBLAS_STATUS_SUCCESS, [\<lparr>algo = 42\<rparr>])),
      reserved_storage = \<lparr>algo = 99\<rparr>,
      getIndexFromAlgo = (\<lambda>_. 5),
      getAlgosFromIndex = (\<lambda>_ _. (HIPBLAS_STATUS_SUCCESS, [\<lparr>algo = 42\<rparr>])),
      initialize = (\<lambda>_ _ _. HIPBLAS_STATUS_SUCCESS),
      run = (\<lambda>_ _. HIPBLAS_STATUS_SUCCESS)\<rparr>"

definition example_a :: Tensor where
  "example_a = \<lparr>dtype = kFloat8_e4m3fnuz, sizes = [2, 4], strides = [4, 1],
                data_ptr = 1000, storage = []\<rparr>"

definition example_b :: Tensor where
  "example_b = \<lparr>dtype = kFloat8_e4m3fnuz, sizes = [4, 3], strides = [1, 4],
                data_ptr = 2000, storage = []\<rparr>"

definition example_result :: Tensor where
  "example_result = \<lparr>dtype = kFloat16, sizes = [2, 3], strides = [3, 1],
                     data_ptr = 3000, storage = []\<rparr>"

definition example_scale_a :: Tensor where
  "example_scale_a = \<lparr>dtype = kFloat, sizes = [], strides = [], data_ptr = 4000, storage = []\<rparr>"

definition example_scale_b :: Tensor where
  "example_scale_b = \<lparr>dtype = kFloat, sizes = [], strides = [], data_ptr = 5000, storage = []\<rparr>"

definition example_scale_result :: Tensor where
  "example_scale_result =
     \<lparr>dtype = kFloat, sizes = [], strides = [], data_ptr = 6000, storage = []\<rparr>"

text \<open>The same library, where \<open>getAlgosFromIndex\<close> knows no index.\<close>

definition unknown_index_library :: Library where
  "unknown_index_library =
     example_library\<lparr>getAlgosFromIndex := (\<lambda>_ _. (HIPBLAS_STATUS_FAILURE 7, []))\<rparr>"

text \<open>A 1 x 1 tensor, whose strides are both 1.\<close>

definition example_1x1 :: Tensor where
  "example_1x1 = \<lparr>dtype = kFloat8_e4m3fnuz, sizes = [1, 1], strides = [1, 1],
                  data_ptr = 7000, storage = []\<rparr>"

text \<open>A 2 x 4 tensor that is neither row-major nor column-major.\<close>

definition example_strided :: Tensor where
  "example_strided = \<lparr>dtype = kFloat8_e4m3fnuz, sizes = [2, 4], strides = [8, 2],
                      data_ptr = 8000, storage = []\<rparr>"

text \<open>The library with a heuristic that finds nothing, and the library of a release build.\<close>

definition no_solution_library :: Library where
  "no_solution_library =
     example_library\<lparr>algoGetHeuristic := (\<lambda>_ _ _. (HIPBLAS_STATUS_SUCCESS, []))\<rparr>"

definition release_library :: Library where
  "release_library = example_library\<lparr>NDEBUG := True\<rparr>"

text \<open>
  A library with a workspace size in the environment. A library whose \<open>run\<close> fails at
  the comparison, and fails differently in the two copies that are printed. A library
  whose \<open>hipMalloc\<close> fails at the comparison and succeeds, with two more buffers, in
  the two copies that are printed. A call as a record, and the state after
  \<open>create_workspace\<close> under the first library.
\<close>

definition sized_library :: Library where
  "sized_library =
     example_library\<lparr>getenv :=
       (\<lambda>name. if name = ''HIPBLASLT_WORKSPACE_SIZE'' then Some ''65536'' else None)\<rparr>"

definition failing_run_library :: Library where
  "failing_run_library =
     example_library\<lparr>run := (\<lambda>k _. HIPBLAS_STATUS_FAILURE (6 + k))\<rparr>"

definition flaky_malloc_library :: Library where
  "flaky_malloc_library =
     example_library\<lparr>hipMalloc :=
       (\<lambda>k _. if k = 0 then (hipFailure 2, 0) else (hipSuccess, 4096 * (1 + of_nat k)))\<rparr>"

definition example_call :: fp8_mm_call where
  "example_call =
     \<lparr>c_library = example_library, c_a = example_a, c_b = example_b, c_result = example_result,
      c_scale_a = example_scale_a, c_scale_b = example_scale_b, c_scale_result = None,
      c_algo_idx = 0, c_padding_size = 0\<rparr>"

definition example_globals :: globals where
  "example_globals = \<lparr>workspace = 4096, workspace_size = 67108864\<rparr>"

lemmas example_defs =
  example_library_def example_a_def example_b_def example_result_def example_scale_a_def
  example_scale_b_def example_scale_result_def unknown_index_library_def example_1x1_def
  example_strided_def no_solution_library_def release_library_def

lemmas fp8_mm_defs =
  fp8_mm_def fp8_mm_problem_def fp8_mm_select_def fp8_mm_launch_def fp8_mm_args_def
  CHECK_HIPBLASLT_ERROR_def CHECK_HIP_ERROR_def
  tensor_dim_def infer_transpose_def max_int64_def transpose_result_def hipblas_op_def
  hipblas_out_type_def initial_globals_def nullptr_def Let_def word_sle_eq word_sless_alt

section \<open>How an invocation can end\<close>

lemma select_ended:
  assumes "fp8_mm_select L pref i = (Inl e, c)"
  shows "e = Check_error (Torch_check ''No valid solution found!'') \<or>
     (\<exists>s1 s2. e = Exit_failure (HipBLASLt_error s1 s2))"
  using assms
  by (auto simp: fp8_mm_select_def CHECK_HIPBLASLT_ERROR_def Let_def
        split: if_splits prod.splits list.splits)

lemma launch_ended:
  "fst (fp8_mm_launch L g h s i) = Returned \<or>
   fst (fp8_mm_launch L g h s i) = Undefined_behaviour Out_of_bounds_read \<or>
   (\<exists>st. fst (fp8_mm_launch L g h s i) = Check_error (Cublas_check st)) \<or>
   (\<exists>s1 s2. fst (fp8_mm_launch L g h s i) = Exit_failure (HipBLASLt_error s1 s2))"
  by (simp add: fp8_mm_launch_def CHECK_HIPBLASLT_ERROR_def Let_def
        split: prod.splits list.splits)

lemma problem_assigned:
  "fp8_mm_problem L g a b result scale_a scale_b scale_result algo_idx padding_size ot
       (Some x) (Some y) =
     (let args = fp8_mm_args a b result scale_a scale_b scale_result padding_size ot x y;
          c1 = [Call_setMaxWorkspaceBytes (workspace_size g),
                Call_Gemm (getCurrentCUDABlasLtHandle L) (sp_problemtype args),
                Call_setProblem args]
      in if setProblem L 0 args \<noteq> HIPBLAS_STATUS_SUCCESS
         then (Exit_failure (HipBLASLt_error (setProblem L 1 args) (setProblem L 2 args)),
               c1 @ [Call_setProblem args, Call_setProblem args])
         else (case fp8_mm_select L \<lparr>maxWorkspaceBytes = workspace_size g\<rparr> algo_idx of
                 (Inl ended, c2) \<Rightarrow> (ended, c1 @ c2)
               | (Inr algo_idx1, c2) \<Rightarrow>
                   (case fp8_mm_launch L g (getCurrentCUDABlasLtHandle L)
                           (getCurrentCUDAStream L) algo_idx1 of
                      (ended, c3) \<Rightarrow> (ended, c1 @ c2 @ c3))))"
  by (simp add: fp8_mm_problem_def CHECK_HIPBLASLT_ERROR_def Let_def
        split: prod.splits sum.splits)

lemma problem_assigned_ended:
  "fst (fp8_mm_problem L g a b result scale_a scale_b scale_result algo_idx padding_size ot
          (Some x) (Some y))
     \<in> {Returned, Undefined_behaviour Out_of_bounds_read,
         Check_error (Torch_check ''No valid solution found!'')}
       \<union> {e. \<exists>st. e = Check_error (Cublas_check st)}
       \<union> {e. \<exists>s1 s2. e = Exit_failure (HipBLASLt_error s1 s2)}"
proof (cases "fp8_mm_select L \<lparr>maxWorkspaceBytes = workspace_size g\<rparr> algo_idx")
  case (Pair r c2)
  show ?thesis
  proof (cases r)
    case (Inl e)
    with Pair select_ended [of L _ algo_idx e c2] show ?thesis
      by (auto simp: problem_assigned Let_def)
  next
    case (Inr j)
    with Pair launch_ended [of L g "getCurrentCUDABlasLtHandle L" "getCurrentCUDAStream L" j]
    show ?thesis
      by (auto simp: problem_assigned Let_def split: prod.splits)
  qed
qed

lemma problem_unassigned:
  assumes "ta = None \<or> tb = None"
  shows "fp8_mm_problem L g a b result scale_a scale_b scale_result algo_idx padding_size ot ta tb
     = (Undefined_behaviour Uninitialized_read, [])"
  using assms by (auto simp: fp8_mm_problem_def split: option.splits)

lemma problem_ended:
  "fst (fp8_mm_problem L g a b result scale_a scale_b scale_result algo_idx padding_size ot ta tb)
     \<in> {Returned, Undefined_behaviour Out_of_bounds_read, Undefined_behaviour Uninitialized_read,
         Check_error (Torch_check ''No valid solution found!'')}
       \<union> {e. \<exists>st. e = Check_error (Cublas_check st)}
       \<union> {e. \<exists>s1 s2. e = Exit_failure (HipBLASLt_error s1 s2)}"
proof (cases "\<exists>x y. ta = Some x \<and> tb = Some y")
  case False
  then have "ta = None \<or> tb = None" by auto
  then show ?thesis
    by (simp add: problem_unassigned)
next
  case True
  then obtain x y where t: "ta = Some x" "tb = Some y" by blast
  show ?thesis
    using problem_assigned_ended [of L g a b result scale_a scale_b scale_result algo_idx
      padding_size ot x y]
    unfolding t by blast
qed

lemma problem_not_argument_error:
  "\<not> argument_check_error
     (fst (fp8_mm_problem L g a b result scale_a scale_b scale_result algo_idx padding_size ot ta tb))"
  using problem_ended [of L g a b result scale_a scale_b scale_result algo_idx padding_size ot ta tb]
  by (auto simp: argument_check_error_def)

lemma fp8_mm_past_checks:
  assumes "fp8_mm_requires a b result padding_size"
  shows "fp8_mm L a b result scale_a scale_b scale_result algo_idx padding_size g =
     (if length (strides a) \<noteq> 2 \<or> length (strides b) \<noteq> 2
      then (Undefined_behaviour Out_of_bounds_read, [], g)
      else if infer_transpose (strides b) (sizes b) = None \<and> \<not> NDEBUG L
      then (Assert_aborted, [], g)
      else if infer_transpose (strides a) (sizes a) = None \<and> \<not> NDEBUG L
      then (Assert_aborted, [], g)
      else (case fp8_mm_problem L g a b result scale_a scale_b scale_result algo_idx padding_size
                   (hipblas_out_type (dtype result))
                   (infer_transpose (strides a) (sizes a))
                   (infer_transpose (strides b) (sizes b)) of
              (ended, calls) \<Rightarrow> (ended, calls, g)))"
proof -
  from assms have
    "dtype a = kFloat8_e4m3fnuz \<and> dtype b = kFloat8_e4m3fnuz"
    "tensor_dim a = 2 \<and> tensor_dim b = 2"
    "sizes a ! 1 = sizes b ! 0 - padding_size"
    "dtype result = kFloat8_e4m3fnuz \<or> dtype result = kFloat16 \<or> dtype result = kBFloat16"
    by (simp_all add: fp8_mm_requires_def)
  then show ?thesis
    unfolding fp8_mm_def Let_def by presburger
qed

lemma fp8_mm_fails_check:
  assumes "\<not> fp8_mm_requires a b result padding_size"
  shows "argument_check_error
      (outcome_of (fp8_mm L a b result scale_a scale_b scale_result algo_idx padding_size g))"
  using assms
  by (auto simp: fp8_mm_def fp8_mm_requires_def outcome_of_def Let_def argument_check_error_def)


lemma fp8_mm_ended:
  "argument_check_error
     (outcome_of (fp8_mm L a b result scale_a scale_b scale_result algo_idx padding_size g)) \<or>
   outcome_of (fp8_mm L a b result scale_a scale_b scale_result algo_idx padding_size g)
     \<in> {Returned, Undefined_behaviour Out_of_bounds_read, Undefined_behaviour Uninitialized_read,
         Assert_aborted, Check_error (Torch_check ''No valid solution found!'')}
       \<union> {e. \<exists>st. e = Check_error (Cublas_check st)}
       \<union> {e. \<exists>s1 s2. e = Exit_failure (HipBLASLt_error s1 s2)}"
proof (cases "fp8_mm_requires a b result padding_size")
  case False
  then show ?thesis
    by (simp add: fp8_mm_fails_check)
next
  case True
  obtain e c where p: "fp8_mm_problem L g a b result scale_a scale_b scale_result algo_idx
      padding_size (hipblas_out_type (dtype result)) (infer_transpose (strides a) (sizes a))
      (infer_transpose (strides b) (sizes b)) = (e, c)"
    by (cases "fp8_mm_problem L g a b result scale_a scale_b scale_result algo_idx
      padding_size (hipblas_out_type (dtype result)) (infer_transpose (strides a) (sizes a))
      (infer_transpose (strides b) (sizes b))")
  have "e \<in> {Returned, Undefined_behaviour Out_of_bounds_read, Undefined_behaviour Uninitialized_read,
         Check_error (Torch_check ''No valid solution found!'')}
       \<union> {e. \<exists>st. e = Check_error (Cublas_check st)}
       \<union> {e. \<exists>s1 s2. e = Exit_failure (HipBLASLt_error s1 s2)}"
    using problem_ended [of L g a b result scale_a scale_b scale_result algo_idx
      padding_size "hipblas_out_type (dtype result)" "infer_transpose (strides a) (sizes a)"
      "infer_transpose (strides b) (sizes b)"] p by simp
  then show ?thesis
    by (auto simp: fp8_mm_past_checks [OF True] p outcome_of_def)
qed

lemma example_requires:
  "fp8_mm_requires example_a example_b example_result 0"
  "fp8_mm_requires example_strided example_b example_result 0"
  by (simp_all add: fp8_mm_requires_def tensor_dim_def example_defs)

section \<open>The checks of the arguments\<close>

text \<open>
  C1, as amended. \<open>fp8_mm\<close> fails with one of the four errors of its argument checks
  exactly when a requirement on the tensor arguments is violated (both dtypes
  float8_e4m3fnuz, both tensors 2-D, \<open>a.sizes[1] = b.sizes[0] - padding_size\<close>, the result
  dtype one of float8_e4m3fnuz, float16, bfloat16), and then no call into the vendor
  library has been made. Other errors are not excluded by the requirements.
\<close>

theorem fp8_mm_argument_checks:
  "(argument_check_error
      (outcome_of (fp8_mm L a b result scale_a scale_b scale_result algo_idx padding_size g))
    \<longleftrightarrow> \<not> fp8_mm_requires a b result padding_size) \<and>
   (\<not> fp8_mm_requires a b result padding_size \<longrightarrow>
      calls_of (fp8_mm L a b result scale_a scale_b scale_result algo_idx padding_size g) = [])"
proof (cases "fp8_mm_requires a b result padding_size")
  case True
  obtain e c where p: "fp8_mm_problem L g a b result scale_a scale_b scale_result algo_idx
      padding_size (hipblas_out_type (dtype result)) (infer_transpose (strides a) (sizes a))
      (infer_transpose (strides b) (sizes b)) = (e, c)"
    by (cases "fp8_mm_problem L g a b result scale_a scale_b scale_result algo_idx
      padding_size (hipblas_out_type (dtype result)) (infer_transpose (strides a) (sizes a))
      (infer_transpose (strides b) (sizes b))")
  have "\<not> argument_check_error e"
    using problem_not_argument_error [of L g a b result scale_a scale_b scale_result algo_idx
      padding_size "hipblas_out_type (dtype result)" "infer_transpose (strides a) (sizes a)"
      "infer_transpose (strides b) (sizes b)"] p by simp
  then have "\<not> argument_check_error
      (outcome_of (fp8_mm L a b result scale_a scale_b scale_result algo_idx padding_size g))"
    by (simp add: fp8_mm_past_checks [OF True] p outcome_of_def argument_check_error_def)
  with True show ?thesis by simp
next
  case False
  then show ?thesis
    by (auto simp: fp8_mm_def fp8_mm_requires_def outcome_of_def calls_of_def Let_def
          argument_check_error_def)
qed

text \<open>
  The theorem at a result tensor of dtype float: the output dtype check fails, nothing
  was called.
\<close>

theorem fp8_mm_argument_checks_witness:
  "\<not> fp8_mm_requires example_a example_b example_scale_a 0 \<and>
   argument_check_error
     (outcome_of (fp8_mm example_library example_a example_b example_scale_a example_scale_a
        example_scale_b None 0 0 initial_globals)) \<and>
   calls_of (fp8_mm example_library example_a example_b example_scale_a example_scale_a
        example_scale_b None 0 0 initial_globals) = []"
proof -
  have "\<not> fp8_mm_requires example_a example_b example_scale_a 0"
    by (simp add: fp8_mm_requires_def example_defs)
  then show ?thesis
    using fp8_mm_argument_checks [of example_library example_a example_b example_scale_a
      example_scale_a example_scale_b None 0 0 initial_globals]
    by simp
qed

text \<open>
  C1 as stated fails: with every requirement met and the explicit index 1, a library
  whose \<open>getAlgosFromIndex\<close> reports a failure makes \<open>TORCH_CUDABLAS_CHECK\<close> raise, and
  nothing is launched.
\<close>

theorem fp8_mm_error_despite_valid_arguments:
  "fp8_mm_requires example_a example_b example_result 0 \<and>
   outcome_of (fp8_mm unknown_index_library example_a example_b example_result example_scale_a
     example_scale_b None 1 0 initial_globals) = Check_error (Cublas_check (HIPBLAS_STATUS_FAILURE 7)) \<and>
   map call_name (calls_of (fp8_mm unknown_index_library example_a example_b example_result
     example_scale_a example_scale_b None 1 0 initial_globals)) =
     [''setMaxWorkspaceBytes'', ''Gemm'', ''setProblem'', ''getAlgosFromIndex'']"
  by (simp add: fp8_mm_requires_def outcome_of_def calls_of_def example_defs fp8_mm_defs)

section \<open>The layout inferred from the strides\<close>

lemma sint_max_int64: "sint (max_int64 x y) = max (sint x) (sint y)"
  by (auto simp: max_int64_def word_sless_alt max_def)

lemma infer_transpose_sint:
  "infer_transpose x_strides x_sizes =
     (if x_strides ! 0 = 1 \<and> max 1 (sint (x_sizes ! 0)) \<le> sint (x_strides ! 1) then Some False
      else if x_strides ! 1 = 1 \<and> max 1 (sint (x_sizes ! 1)) \<le> sint (x_strides ! 0) then Some True
      else None)"
  unfolding infer_transpose_def word_sle_eq sint_max_int64 by simp

lemma args_ignore_storage:
  "fp8_mm_args (a\<lparr>storage := da\<rparr>) (b\<lparr>storage := db\<rparr>) = fp8_mm_args a b"
  by (simp add: fp8_mm_args_def fun_eq_iff Let_def)

lemma problem_ignores_storage:
  "fp8_mm_problem L g (a\<lparr>storage := da\<rparr>) (b\<lparr>storage := db\<rparr>) = fp8_mm_problem L g a b"
  unfolding fp8_mm_problem_def args_ignore_storage ..

lemma fp8_mm_ignores_storage:
  "fp8_mm L (a\<lparr>storage := da\<rparr>) (b\<lparr>storage := db\<rparr>) result scale_a scale_b scale_result
       algo_idx padding_size g =
     fp8_mm L a b result scale_a scale_b scale_result algo_idx padding_size g"
  unfolding fp8_mm_def problem_ignores_storage tensor_dim_def Let_def by simp

text \<open>
  C2, as amended. The transpose flag of an operand comes from its strides and sizes
  alone: it is false when \<open>strides[0] = 1\<close> and \<open>strides[1] \<ge> max(1, sizes[0])\<close>; it is
  true when that first pattern does not hold and \<open>strides[1] = 1\<close> and
  \<open>strides[0] \<ge> max(1, sizes[1])\<close>. The bytes of the tensors play no role in anything
  \<open>fp8_mm\<close> does.
\<close>

theorem infer_transpose_from_strides:
  "(x_strides ! 0 = 1 \<and> max 1 (sint (x_sizes ! 0)) \<le> sint (x_strides ! 1)
      \<longrightarrow> infer_transpose x_strides x_sizes = Some False) \<and>
   (\<not> (x_strides ! 0 = 1 \<and> max 1 (sint (x_sizes ! 0)) \<le> sint (x_strides ! 1)) \<and>
    x_strides ! 1 = 1 \<and> max 1 (sint (x_sizes ! 1)) \<le> sint (x_strides ! 0)
      \<longrightarrow> infer_transpose x_strides x_sizes = Some True) \<and>
   fp8_mm L (a\<lparr>storage := da\<rparr>) (b\<lparr>storage := db\<rparr>) result scale_a scale_b scale_result
       algo_idx padding_size g =
     fp8_mm L a b result scale_a scale_b scale_result algo_idx padding_size g"
  by (simp add: infer_transpose_sint fp8_mm_ignores_storage)

text \<open>The theorem at the row-major \<open>a\<close> and the column-major \<open>b\<close>.\<close>

theorem infer_transpose_from_strides_witness:
  "infer_transpose (strides example_a) (sizes example_a) = Some True \<and>
   infer_transpose (strides example_b) (sizes example_b) = Some False \<and>
   fp8_mm example_library (example_a\<lparr>storage := [1, 2, 3]\<rparr>) (example_b\<lparr>storage := [4, 5]\<rparr>)
       example_result example_scale_a example_scale_b None 0 0 initial_globals =
     fp8_mm example_library example_a example_b example_result example_scale_a example_scale_b
       None 0 0 initial_globals"
  using infer_transpose_from_strides [where x_strides = "strides example_a"
      and x_sizes = "sizes example_a" and L = example_library and a = example_a
      and da = "[1, 2, 3]" and b = example_b and db = "[4, 5]" and result = example_result
      and scale_a = example_scale_a and scale_b = example_scale_b and scale_result = None
      and algo_idx = 0 and padding_size = 0 and g = initial_globals]
    infer_transpose_from_strides [where x_strides = "strides example_b"
      and x_sizes = "sizes example_b" and L = example_library and a = example_a
      and da = "[1, 2, 3]" and b = example_b and db = "[4, 5]" and result = example_result
      and scale_a = example_scale_a and scale_b = example_scale_b and scale_result = None
      and algo_idx = 0 and padding_size = 0 and g = initial_globals]
  by (simp add: example_a_def example_b_def)

text \<open>
  C2 as stated fails: a 1 x 1 tensor with strides (1, 1) matches the second pattern, for
  which the claim gives the flag true, and is given the flag false.
\<close>

theorem infer_transpose_both_patterns:
  "strides example_1x1 ! 1 = 1 \<and>
   max 1 (sint (sizes example_1x1 ! 1)) \<le> sint (strides example_1x1 ! 0) \<and>
   infer_transpose (strides example_1x1) (sizes example_1x1) = Some False"
  by (simp add: example_1x1_def infer_transpose_sint)

text \<open>
  C9. The flag is unassigned exactly when the strides match neither pattern. Past the
  argument checks, an operand that matches neither pattern ends the invocation in the
  \<open>assert(false)\<close> when assertions are compiled in, and in the read of an unassigned
  flag when they are not, before any call; when both operands match a pattern, neither
  of the two happens.
\<close>

theorem infer_transpose_partial:
  "(infer_transpose x_strides x_sizes = None \<longleftrightarrow>
      \<not> (x_strides ! 0 = 1 \<and> max 1 (sint (x_sizes ! 0)) \<le> sint (x_strides ! 1)) \<and>
      \<not> (x_strides ! 1 = 1 \<and> max 1 (sint (x_sizes ! 1)) \<le> sint (x_strides ! 0))) \<and>
   (fp8_mm_requires a b result padding_size \<and>
    length (strides a) = 2 \<and> length (strides b) = 2 \<and>
    (infer_transpose (strides a) (sizes a) = None \<or>
     infer_transpose (strides b) (sizes b) = None) \<longrightarrow>
      fp8_mm L a b result scale_a scale_b scale_result algo_idx padding_size g =
        (if NDEBUG L then Undefined_behaviour Uninitialized_read else Assert_aborted, [], g)) \<and>
   (fp8_mm_requires a b result padding_size \<and>
    length (strides a) = 2 \<and> length (strides b) = 2 \<and>
    infer_transpose (strides a) (sizes a) \<noteq> None \<and>
    infer_transpose (strides b) (sizes b) \<noteq> None \<longrightarrow>
      outcome_of (fp8_mm L a b result scale_a scale_b scale_result algo_idx padding_size g)
        \<noteq> Assert_aborted \<and>
      outcome_of (fp8_mm L a b result scale_a scale_b scale_result algo_idx padding_size g)
        \<noteq> Undefined_behaviour Uninitialized_read)"
proof (intro conjI impI)
  show "infer_transpose x_strides x_sizes = None \<longleftrightarrow>
      \<not> (x_strides ! 0 = 1 \<and> max 1 (sint (x_sizes ! 0)) \<le> sint (x_strides ! 1)) \<and>
      \<not> (x_strides ! 1 = 1 \<and> max 1 (sint (x_sizes ! 1)) \<le> sint (x_strides ! 0))"
    by (simp add: infer_transpose_sint)
next
  assume h: "fp8_mm_requires a b result padding_size \<and>
    length (strides a) = 2 \<and> length (strides b) = 2 \<and>
    (infer_transpose (strides a) (sizes a) = None \<or>
     infer_transpose (strides b) (sizes b) = None)"
  then have "fp8_mm_problem L g a b result scale_a scale_b scale_result algo_idx padding_size
      (hipblas_out_type (dtype result)) (infer_transpose (strides a) (sizes a))
      (infer_transpose (strides b) (sizes b)) = (Undefined_behaviour Uninitialized_read, [])"
    by (simp add: problem_unassigned)
  with h show "fp8_mm L a b result scale_a scale_b scale_result algo_idx padding_size g =
        (if NDEBUG L then Undefined_behaviour Uninitialized_read else Assert_aborted, [], g)"
    by (auto simp: fp8_mm_past_checks)
next
  assume h: "fp8_mm_requires a b result padding_size \<and>
    length (strides a) = 2 \<and> length (strides b) = 2 \<and>
    infer_transpose (strides a) (sizes a) \<noteq> None \<and>
    infer_transpose (strides b) (sizes b) \<noteq> None"
  then obtain x y where t: "infer_transpose (strides a) (sizes a) = Some x"
    "infer_transpose (strides b) (sizes b) = Some y" by auto
  obtain e c where p: "fp8_mm_problem L g a b result scale_a scale_b scale_result algo_idx
      padding_size (hipblas_out_type (dtype result)) (Some x) (Some y) = (e, c)"
    by (cases "fp8_mm_problem L g a b result scale_a scale_b scale_result algo_idx
      padding_size (hipblas_out_type (dtype result)) (Some x) (Some y)")
  have e: "e \<noteq> Assert_aborted \<and> e \<noteq> Undefined_behaviour Uninitialized_read"
    using problem_assigned_ended [of L g a b result scale_a scale_b scale_result algo_idx
      padding_size "hipblas_out_type (dtype result)" x y] p by auto
  from h have o: "outcome_of (fp8_mm L a b result scale_a scale_b scale_result algo_idx padding_size g) = e"
    by (simp add: fp8_mm_past_checks t p outcome_of_def)
  from e o show "outcome_of (fp8_mm L a b result scale_a scale_b scale_result algo_idx padding_size g)
        \<noteq> Assert_aborted" by simp
  from e o show "outcome_of (fp8_mm L a b result scale_a scale_b scale_result algo_idx padding_size g)
        \<noteq> Undefined_behaviour Uninitialized_read" by simp
qed

text \<open>
  The theorem at a tensor with strides (8, 2), in a debug and in a release build, and at
  the row-major \<open>a\<close>.
\<close>

theorem infer_transpose_partial_witness:
  "infer_transpose (strides example_strided) (sizes example_strided) = None \<and>
   fp8_mm example_library example_strided example_b example_result example_scale_a
       example_scale_b None 0 0 initial_globals = (Assert_aborted, [], initial_globals) \<and>
   fp8_mm release_library example_strided example_b example_result example_scale_a
       example_scale_b None 0 0 initial_globals =
     (Undefined_behaviour Uninitialized_read, [], initial_globals) \<and>
   outcome_of (fp8_mm example_library example_a example_b example_result example_scale_a
       example_scale_b None 0 0 initial_globals) \<noteq> Assert_aborted"
proof -
  have s: "infer_transpose (strides example_strided) (sizes example_strided) = None"
    "infer_transpose (strides example_a) (sizes example_a) = Some True"
    "infer_transpose (strides example_b) (sizes example_b) = Some False"
    by (simp_all add: infer_transpose_sint example_defs)
  have l: "length (strides example_strided) = 2" "length (strides example_b) = 2"
    "length (strides example_a) = 2"
    by (simp_all add: example_defs)
  have n: "\<not> NDEBUG example_library" "NDEBUG release_library"
    by (simp_all add: example_library_def release_library_def)
  show ?thesis
    using s l n example_requires
      infer_transpose_partial [where a = example_strided and b = example_b
        and result = example_result and padding_size = 0 and L = example_library
        and scale_a = example_scale_a and scale_b = example_scale_b and scale_result = None
        and algo_idx = 0 and g = initial_globals]
      infer_transpose_partial [where a = example_strided and b = example_b
        and result = example_result and padding_size = 0 and L = release_library
        and scale_a = example_scale_a and scale_b = example_scale_b and scale_result = None
        and algo_idx = 0 and g = initial_globals]
      infer_transpose_partial [where a = example_a and b = example_b
        and result = example_result and padding_size = 0 and L = example_library
        and scale_a = example_scale_a and scale_b = example_scale_b and scale_result = None
        and algo_idx = 0 and g = initial_globals]
    by simp
qed

section \<open>The calls of an invocation\<close>

lemma fp8_mm_reaches_problem:
  assumes "fp8_mm_requires a b result padding_size"
    and "length (strides a) = 2" and "length (strides b) = 2"
    and "infer_transpose (strides a) (sizes a) = Some ta"
    and "infer_transpose (strides b) (sizes b) = Some tb"
  shows "fp8_mm L a b result scale_a scale_b scale_result algo_idx padding_size g =
     (case fp8_mm_problem L g a b result scale_a scale_b scale_result algo_idx padding_size
             (hipblas_out_type (dtype result)) (Some ta) (Some tb) of
        (ended, calls) \<Rightarrow> (ended, calls, g))"
  using assms by (simp add: fp8_mm_past_checks)

lemma problem_calls_begin:
  "\<exists>rest. snd (fp8_mm_problem L g a b result scale_a scale_b scale_result algo_idx padding_size ot
       (Some x) (Some y)) =
     Call_setMaxWorkspaceBytes (workspace_size g) #
     Call_Gemm (getCurrentCUDABlasLtHandle L)
       (sp_problemtype (fp8_mm_args a b result scale_a scale_b scale_result padding_size ot x y)) #
     Call_setProblem (fp8_mm_args a b result scale_a scale_b scale_result padding_size ot x y) # rest"
  by (simp add: problem_assigned Let_def split: prod.splits sum.splits)

lemma fp8_mm_calls_begin:
  assumes "fp8_mm_requires a b result padding_size"
    and "length (strides a) = 2" and "length (strides b) = 2"
    and "infer_transpose (strides a) (sizes a) = Some ta"
    and "infer_transpose (strides b) (sizes b) = Some tb"
  shows "\<exists>rest. calls_of (fp8_mm L a b result scale_a scale_b scale_result algo_idx padding_size g) =
     Call_setMaxWorkspaceBytes (workspace_size g) #
     Call_Gemm (getCurrentCUDABlasLtHandle L)
       (sp_problemtype (fp8_mm_args a b result scale_a scale_b scale_result padding_size
          (hipblas_out_type (dtype result)) ta tb)) #
     Call_setProblem (fp8_mm_args a b result scale_a scale_b scale_result padding_size
          (hipblas_out_type (dtype result)) ta tb) # rest"
  using problem_calls_begin [of L g a b result scale_a scale_b scale_result algo_idx padding_size
      "hipblas_out_type (dtype result)" ta tb]
  by (auto simp: fp8_mm_reaches_problem [OF assms] calls_of_def split: prod.splits)

lemma fp8_mm_argument_calls:
  assumes "\<not> fp8_mm_requires a b result padding_size"
  shows "calls_of (fp8_mm L a b result scale_a scale_b scale_result algo_idx padding_size g) = []"
  using assms
  by (auto simp: fp8_mm_def fp8_mm_requires_def calls_of_def Let_def)


lemma ucast_scast_int: "ucast (scast (x :: int_t) :: int64_t) = x"
proof -
  have "(ucast :: int64_t \<Rightarrow> int_t) = scast"
    by (rule down_cast_same) (simp add: is_down)
  then show ?thesis
    by (simp add: scast_up_scast_id is_up)
qed

lemma select_calls:
  assumes "c \<in> set (snd (fp8_mm_select L pref i))"
  shows "i = 0 \<and> (c = Call_algoGetHeuristic 1 pref \<or> c = Read_past_end ''heuristicResult'' \<or>
     (\<exists>al. c = Call_getIndexFromAlgo al))"
  using assms
  by (auto simp: fp8_mm_select_def CHECK_HIPBLASLT_ERROR_def Let_def
        split: if_splits prod.splits list.splits)

lemma select_index:
  assumes "fst (fp8_mm_select L pref i) = Inr j"
  shows "chosen_index L pref i = Some (ucast j)"
  using assms
  by (auto simp: fp8_mm_select_def CHECK_HIPBLASLT_ERROR_def chosen_index_def ucast_scast_int
        Let_def split: if_splits prod.splits list.splits)

lemma launch_calls:
  assumes "c \<in> set (snd (fp8_mm_launch L g h s j))"
  shows "c = Call_getAlgosFromIndex h [ucast j] \<or>
     (\<exists>t ts. getAlgosFromIndex L h [ucast j] = (HIPBLAS_STATUS_SUCCESS, t # ts) \<and>
        (c = Call_initialize (algo t) (workspace g) \<or> c = Call_run s))"
  using assms
  by (auto simp: fp8_mm_launch_def CHECK_HIPBLASLT_ERROR_def Let_def
        split: if_splits prod.splits list.splits)

lemma problem_calls:
  assumes "c \<in> set (snd (fp8_mm_problem L g a b result scale_a scale_b scale_result algo_idx
      padding_size ot ta tb))"
  shows "\<exists>x y. ta = Some x \<and> tb = Some y \<and>
     (c = Call_setMaxWorkspaceBytes (workspace_size g) \<or>
      c = Call_Gemm (getCurrentCUDABlasLtHandle L)
            (sp_problemtype (fp8_mm_args a b result scale_a scale_b scale_result padding_size ot x y)) \<or>
      c = Call_setProblem (fp8_mm_args a b result scale_a scale_b scale_result padding_size ot x y) \<or>
      c \<in> set (snd (fp8_mm_select L \<lparr>maxWorkspaceBytes = workspace_size g\<rparr> algo_idx)) \<or>
      (\<exists>j. fst (fp8_mm_select L \<lparr>maxWorkspaceBytes = workspace_size g\<rparr> algo_idx) = Inr j \<and>
         c \<in> set (snd (fp8_mm_launch L g (getCurrentCUDABlasLtHandle L)
                          (getCurrentCUDAStream L) j))))"
proof (cases "\<exists>x y. ta = Some x \<and> tb = Some y")
  case False
  with assms show ?thesis
    by (auto simp: fp8_mm_problem_def split: option.splits)
next
  case True
  then obtain x y where t: "ta = Some x" "tb = Some y" by blast
  from assms show ?thesis
    unfolding t problem_assigned Let_def
    by (auto split: if_splits prod.splits sum.splits)
qed

lemma fp8_mm_calls:
  assumes "c \<in> set (calls_of (fp8_mm L a b result scale_a scale_b scale_result algo_idx
      padding_size g))"
  shows "fp8_mm_requires a b result padding_size \<and>
     c \<in> set (snd (fp8_mm_problem L g a b result scale_a scale_b scale_result algo_idx
       padding_size (hipblas_out_type (dtype result)) (infer_transpose (strides a) (sizes a))
       (infer_transpose (strides b) (sizes b))))"
proof (cases "fp8_mm_requires a b result padding_size")
  case False
  with assms fp8_mm_argument_calls [OF False] show ?thesis by simp
next
  case True
  with assms show ?thesis
    by (auto simp: fp8_mm_past_checks calls_of_def split: if_splits prod.splits)
qed


lemma setProblem_call:
  assumes "Call_setProblem args \<in> set (calls_of (fp8_mm L a b result scale_a scale_b scale_result
      algo_idx padding_size g))"
  shows "\<exists>x y. args = fp8_mm_args a b result scale_a scale_b scale_result padding_size
      (hipblas_out_type (dtype result)) x y"
  using problem_calls [OF fp8_mm_calls [OF assms, THEN conjunct2]]
  by (auto dest: select_calls launch_calls)

lemma sint_narrow:
  assumes "- (2 ^ 31) \<le> sint (i :: int64_t)" and "sint i < 2 ^ 31"
  shows "sint (ucast i :: int_t) = sint i"
proof -
  have "(ucast :: int64_t \<Rightarrow> int_t) = scast"
    by (rule down_cast_same) (simp add: is_down)
  then have "sint (ucast i :: int_t) = signed_take_bit 31 (sint i)"
    by (simp add: signed_scast_eq)
  with assms show ?thesis
    by (simp add: signed_take_bit_int_eq_self)
qed

lemma select_zero_calls:
  "Call_algoGetHeuristic 1 pref \<in> set (snd (fp8_mm_select L pref 0))"
  by (simp add: fp8_mm_select_def CHECK_HIPBLASLT_ERROR_def Let_def
        split: prod.splits list.splits)

lemma problem_calls_select:
  assumes "setProblem L 0 (fp8_mm_args a b result scale_a scale_b scale_result padding_size ot x y)
      = HIPBLAS_STATUS_SUCCESS"
    and "c \<in> set (snd (fp8_mm_select L \<lparr>maxWorkspaceBytes = workspace_size g\<rparr> algo_idx))"
  shows "c \<in> set (snd (fp8_mm_problem L g a b result scale_a scale_b scale_result algo_idx
      padding_size ot (Some x) (Some y)))"
  using assms unfolding problem_assigned Let_def
  by (auto split: prod.splits sum.splits)

lemma example_layout:
  "length (strides example_a) = 2" "length (strides example_b) = 2"
  "infer_transpose (strides example_a) (sizes example_a) = Some True"
  "infer_transpose (strides example_b) (sizes example_b) = Some False"
  by (simp_all add: infer_transpose_sint example_defs)

lemmas example_eval =
  fp8_mm_def fp8_mm_problem_def fp8_mm_select_def fp8_mm_launch_def fp8_mm_args_def
  CHECK_HIPBLASLT_ERROR_def CHECK_HIP_ERROR_def
  tensor_dim_def infer_transpose_sint transpose_result_def hipblas_op_def
  hipblas_out_type_def initial_globals_def nullptr_def Let_def outcome_of_def calls_of_def
  globals_of_def

lemma example_run:
  "fp8_mm example_library example_a example_b example_result example_scale_a example_scale_b
     (Some example_scale_result) 0 0 initial_globals =
   (Returned,
    [Call_setMaxWorkspaceBytes 0,
     Call_Gemm 7 (sp_problemtype (fp8_mm_args example_a example_b example_result example_scale_a
        example_scale_b (Some example_scale_result) 0 HIP_R_16F True False)),
     Call_setProblem (fp8_mm_args example_a example_b example_result example_scale_a
        example_scale_b (Some example_scale_result) 0 HIP_R_16F True False),
     Call_algoGetHeuristic 1 \<lparr>maxWorkspaceBytes = 0\<rparr>,
     Call_getIndexFromAlgo 42,
     Call_getAlgosFromIndex 7 [5],
     Call_initialize 42 0,
     Call_run 3],
    initial_globals)"
  by (simp add: fp8_mm_def fp8_mm_problem_def fp8_mm_select_def fp8_mm_launch_def
      CHECK_HIPBLASLT_ERROR_def tensor_dim_def infer_transpose_sint hipblas_out_type_def
      initial_globals_def nullptr_def Let_def example_defs)

lemma example_chosen:
  "chosen_index example_library \<lparr>maxWorkspaceBytes = 0\<rparr> 0 = Some 5"
  "chosen_index example_library \<lparr>maxWorkspaceBytes = 0\<rparr> 6 = Some 6"
  by (simp_all add: chosen_index_def example_defs)

section \<open>The problem handed to the vendor library\<close>

text \<open>
  C3. In a valid call (the four requirements met, both operands matching a stride
  pattern) the first three calls are \<open>setMaxWorkspaceBytes\<close>, the constructor of the
  \<open>Gemm\<close> and \<open>setProblem\<close>, with the operands swapped: the vendor's operand A is
  \<open>b.data_ptr()\<close> with the negation of the flag inferred for \<open>b\<close>, its operand B is
  \<open>a.data_ptr()\<close> with the negation of the flag inferred for \<open>a\<close>; \<open>m = b.sizes[1]\<close>,
  \<open>n = a.sizes[0]\<close>, \<open>k = b.sizes[0] - padding_size = a.sizes[1]\<close>,
  \<open>strideA = m * (k + padding_size)\<close>, \<open>strideB = n * k\<close>, \<open>strideC = m * n\<close>, batch
  count 1.
\<close>

theorem fp8_mm_vendor_problem:
  assumes "fp8_mm_requires a b result padding_size"
    and "length (strides a) = 2" and "length (strides b) = 2"
    and "infer_transpose (strides a) (sizes a) = Some ta"
    and "infer_transpose (strides b) (sizes b) = Some tb"
  shows "\<exists>args rest.
     calls_of (fp8_mm L a b result scale_a scale_b scale_result algo_idx padding_size g) =
       Call_setMaxWorkspaceBytes (workspace_size g) #
       Call_Gemm (getCurrentCUDABlasLtHandle L) (sp_problemtype args) #
       Call_setProblem args # rest \<and>
     in_a (sp_inputs args) = data_ptr b \<and> op_a (sp_problemtype args) = hipblas_op (\<not> tb) \<and>
     in_b (sp_inputs args) = data_ptr a \<and> op_b (sp_problemtype args) = hipblas_op (\<not> ta) \<and>
     sp_m args = sizes b ! 1 \<and> sp_n args = sizes a ! 0 \<and>
     sp_k args = sizes b ! 0 - padding_size \<and> sp_k args = sizes a ! 1 \<and>
     sp_strideA args = sp_m args * (sp_k args + padding_size) \<and>
     sp_strideB args = sp_n args * sp_k args \<and>
     sp_strideC args = sp_m args * sp_n args \<and>
     sp_batch_count args = 1"
proof -
  let ?args = "fp8_mm_args a b result scale_a scale_b scale_result padding_size
          (hipblas_out_type (dtype result)) ta tb"
  from fp8_mm_calls_begin [OF assms] obtain rest where
    c: "calls_of (fp8_mm L a b result scale_a scale_b scale_result algo_idx padding_size g) =
       Call_setMaxWorkspaceBytes (workspace_size g) #
       Call_Gemm (getCurrentCUDABlasLtHandle L) (sp_problemtype ?args) #
       Call_setProblem ?args # rest" by blast
  from assms(1) have k: "sizes a ! 1 = sizes b ! 0 - padding_size"
    by (simp add: fp8_mm_requires_def)
  have "in_a (sp_inputs ?args) = data_ptr b \<and> op_a (sp_problemtype ?args) = hipblas_op (\<not> tb) \<and>
     in_b (sp_inputs ?args) = data_ptr a \<and> op_b (sp_problemtype ?args) = hipblas_op (\<not> ta) \<and>
     sp_m ?args = sizes b ! 1 \<and> sp_n ?args = sizes a ! 0 \<and>
     sp_k ?args = sizes b ! 0 - padding_size \<and> sp_k ?args = sizes a ! 1 \<and>
     sp_strideA ?args = sp_m ?args * (sp_k ?args + padding_size) \<and>
     sp_strideB ?args = sp_n ?args * sp_k ?args \<and>
     sp_strideC ?args = sp_m ?args * sp_n ?args \<and>
     sp_batch_count ?args = 1"
    using k by (simp add: fp8_mm_args_def transpose_result_def Let_def)
  with c show ?thesis by blast
qed

text \<open>The theorem at the 2 x 4 \<open>a\<close> and the 4 x 3 \<open>b\<close>: \<open>m = 3\<close>, \<open>n = 2\<close>, \<open>k = 4\<close>.\<close>

theorem fp8_mm_vendor_problem_witness:
  "\<exists>args rest.
     calls_of (fp8_mm example_library example_a example_b example_result example_scale_a
        example_scale_b None 0 0 initial_globals) =
       Call_setMaxWorkspaceBytes 0 # Call_Gemm 7 (sp_problemtype args) #
       Call_setProblem args # rest \<and>
     in_a (sp_inputs args) = 2000 \<and> op_a (sp_problemtype args) = HIPBLAS_OP_T \<and>
     in_b (sp_inputs args) = 1000 \<and> op_b (sp_problemtype args) = HIPBLAS_OP_N \<and>
     sp_m args = 3 \<and> sp_n args = 2 \<and> sp_k args = 4 \<and>
     sp_strideA args = 12 \<and> sp_strideB args = 8 \<and> sp_strideC args = 6 \<and>
     sp_batch_count args = 1"
proof -
  from fp8_mm_vendor_problem [OF example_requires(1) example_layout, of example_library
      example_scale_a example_scale_b None 0 initial_globals]
  obtain args rest where
    "calls_of (fp8_mm example_library example_a example_b example_result example_scale_a
        example_scale_b None 0 0 initial_globals) =
       Call_setMaxWorkspaceBytes (workspace_size initial_globals) #
       Call_Gemm (getCurrentCUDABlasLtHandle example_library) (sp_problemtype args) #
       Call_setProblem args # rest \<and>
     in_a (sp_inputs args) = data_ptr example_b \<and>
     op_a (sp_problemtype args) = hipblas_op (\<not> False) \<and>
     in_b (sp_inputs args) = data_ptr example_a \<and>
     op_b (sp_problemtype args) = hipblas_op (\<not> True) \<and>
     sp_m args = sizes example_b ! 1 \<and> sp_n args = sizes example_a ! 0 \<and>
     sp_k args = sizes example_b ! 0 - 0 \<and> sp_k args = sizes example_a ! 1 \<and>
     sp_strideA args = sp_m args * (sp_k args + 0) \<and>
     sp_strideB args = sp_n args * sp_k args \<and>
     sp_strideC args = sp_m args * sp_n args \<and>
     sp_batch_count args = 1"
    by blast
  then have
    "calls_of (fp8_mm example_library example_a example_b example_result example_scale_a
        example_scale_b None 0 0 initial_globals) =
       Call_setMaxWorkspaceBytes 0 # Call_Gemm 7 (sp_problemtype args) #
       Call_setProblem args # rest \<and>
     in_a (sp_inputs args) = 2000 \<and> op_a (sp_problemtype args) = HIPBLAS_OP_T \<and>
     in_b (sp_inputs args) = 1000 \<and> op_b (sp_problemtype args) = HIPBLAS_OP_N \<and>
     sp_m args = 3 \<and> sp_n args = 2 \<and> sp_k args = 4 \<and>
     sp_strideA args = 12 \<and> sp_strideB args = 8 \<and> sp_strideC args = 6 \<and>
     sp_batch_count args = 1"
    by (simp add: example_defs initial_globals_def hipblas_op_def)
  then show ?thesis by blast
qed

text \<open>
  C5 at a concrete call. The data of \<open>b\<close> goes to the vendor's operand A together with
  the pointer of \<open>scale_a\<close>, and the data of \<open>a\<close> to operand B together with the
  pointer of \<open>scale_b\<close>: both arms of the conditionals on lines 142-143 are the same,
  while lines 138-139 swap the data pointers.
\<close>

theorem fp8_mm_scale_pointers:
  "\<exists>c0 c1 args rest.
     calls_of (fp8_mm example_library example_a example_b example_result example_scale_a
        example_scale_b None 0 0 initial_globals) = c0 # c1 # Call_setProblem args # rest \<and>
     in_a (sp_inputs args) = data_ptr example_b \<and>
     scaleA (sp_inputs args) = data_ptr example_scale_a \<and>
     in_b (sp_inputs args) = data_ptr example_a \<and>
     scaleB (sp_inputs args) = data_ptr example_scale_b \<and>
     data_ptr example_scale_a \<noteq> data_ptr example_scale_b"
  by (simp add: example_eval example_defs)

text \<open>The same call with the addresses written out.\<close>

theorem fp8_mm_scale_pointers_witness:
  "\<exists>c0 c1 args rest.
     calls_of (fp8_mm example_library example_a example_b example_result example_scale_a
        example_scale_b None 0 0 initial_globals) = c0 # c1 # Call_setProblem args # rest \<and>
     in_a (sp_inputs args) = 2000 \<and> scaleA (sp_inputs args) = 4000 \<and>
     in_b (sp_inputs args) = 1000 \<and> scaleB (sp_inputs args) = 5000"
proof -
  from fp8_mm_scale_pointers obtain c0 c1 args rest where
    "calls_of (fp8_mm example_library example_a example_b example_result example_scale_a
        example_scale_b None 0 0 initial_globals) = c0 # c1 # Call_setProblem args # rest \<and>
     in_a (sp_inputs args) = data_ptr example_b \<and>
     scaleA (sp_inputs args) = data_ptr example_scale_a \<and>
     in_b (sp_inputs args) = data_ptr example_a \<and>
     scaleB (sp_inputs args) = data_ptr example_scale_b"
    by blast
  then have
    "calls_of (fp8_mm example_library example_a example_b example_result example_scale_a
        example_scale_b None 0 0 initial_globals) = c0 # c1 # Call_setProblem args # rest \<and>
     in_a (sp_inputs args) = 2000 \<and> scaleA (sp_inputs args) = 4000 \<and>
     in_b (sp_inputs args) = 1000 \<and> scaleB (sp_inputs args) = 5000"
    by (simp add: example_defs)
  then show ?thesis by blast
qed

text \<open>
  C6. Every \<open>setProblem\<close> of an invocation is given \<open>scale_result.value().data_ptr()\<close>
  as \<open>scaleD\<close> when \<open>scale_result\<close> is present and the null pointer when it is absent,
  and \<open>result.data_ptr()\<close> as both C and D; a valid call makes such a \<open>setProblem\<close>.
\<close>

theorem fp8_mm_output_pointers:
  "(\<forall>args. Call_setProblem args \<in> set (calls_of (fp8_mm L a b result scale_a scale_b scale_result
        algo_idx padding_size g)) \<longrightarrow>
      scaleD (sp_inputs args) = (case scale_result of Some t \<Rightarrow> data_ptr t | None \<Rightarrow> nullptr) \<and>
      in_c (sp_inputs args) = data_ptr result \<and>
      in_d (sp_inputs args) = data_ptr result) \<and>
   (fp8_mm_requires a b result padding_size \<and>
    length (strides a) = 2 \<and> length (strides b) = 2 \<and>
    infer_transpose (strides a) (sizes a) \<noteq> None \<and>
    infer_transpose (strides b) (sizes b) \<noteq> None \<longrightarrow>
      (\<exists>args. Call_setProblem args \<in> set (calls_of (fp8_mm L a b result scale_a scale_b
         scale_result algo_idx padding_size g))))"
proof (intro conjI allI impI)
  fix args
  assume "Call_setProblem args \<in> set (calls_of (fp8_mm L a b result scale_a scale_b scale_result
        algo_idx padding_size g))"
  from setProblem_call [OF this] obtain x y where
    a: "args = fp8_mm_args a b result scale_a scale_b scale_result padding_size
      (hipblas_out_type (dtype result)) x y" by blast
  show "scaleD (sp_inputs args) = (case scale_result of Some t \<Rightarrow> data_ptr t | None \<Rightarrow> nullptr)"
    and "in_c (sp_inputs args) = data_ptr result"
    and "in_d (sp_inputs args) = data_ptr result"
    by (simp_all add: a fp8_mm_args_def Let_def)
next
  assume h: "fp8_mm_requires a b result padding_size \<and>
    length (strides a) = 2 \<and> length (strides b) = 2 \<and>
    infer_transpose (strides a) (sizes a) \<noteq> None \<and>
    infer_transpose (strides b) (sizes b) \<noteq> None"
  then obtain x y where t: "infer_transpose (strides a) (sizes a) = Some x"
    "infer_transpose (strides b) (sizes b) = Some y" by auto
  from h t fp8_mm_calls_begin [of a b result padding_size x y L scale_a scale_b scale_result algo_idx g]
  obtain rest where "calls_of (fp8_mm L a b result scale_a scale_b scale_result algo_idx padding_size g) =
     Call_setMaxWorkspaceBytes (workspace_size g) #
     Call_Gemm (getCurrentCUDABlasLtHandle L)
       (sp_problemtype (fp8_mm_args a b result scale_a scale_b scale_result padding_size
          (hipblas_out_type (dtype result)) x y)) #
     Call_setProblem (fp8_mm_args a b result scale_a scale_b scale_result padding_size
          (hipblas_out_type (dtype result)) x y) # rest" by blast
  then show "\<exists>args. Call_setProblem args \<in> set (calls_of (fp8_mm L a b result scale_a scale_b
         scale_result algo_idx padding_size g))"
    by auto
qed

text \<open>The theorem at a call with an output scale at address 6000.\<close>

theorem fp8_mm_output_pointers_witness:
  "Call_setProblem (fp8_mm_args example_a example_b example_result example_scale_a
        example_scale_b (Some example_scale_result) 0 HIP_R_16F True False)
     \<in> set (calls_of (fp8_mm example_library example_a example_b example_result example_scale_a
          example_scale_b (Some example_scale_result) 0 0 initial_globals)) \<and>
   scaleD (sp_inputs (fp8_mm_args example_a example_b example_result example_scale_a
        example_scale_b (Some example_scale_result) 0 HIP_R_16F True False)) = 6000 \<and>
   in_c (sp_inputs (fp8_mm_args example_a example_b example_result example_scale_a
        example_scale_b (Some example_scale_result) 0 HIP_R_16F True False)) = 3000 \<and>
   in_d (sp_inputs (fp8_mm_args example_a example_b example_result example_scale_a
        example_scale_b (Some example_scale_result) 0 HIP_R_16F True False)) = 3000"
proof -
  have m: "Call_setProblem (fp8_mm_args example_a example_b example_result example_scale_a
        example_scale_b (Some example_scale_result) 0 HIP_R_16F True False)
     \<in> set (calls_of (fp8_mm example_library example_a example_b example_result example_scale_a
          example_scale_b (Some example_scale_result) 0 0 initial_globals))"
    by (simp add: example_run calls_of_def)
  have d: "data_ptr example_scale_result = 6000" "data_ptr example_result = 3000"
    by (simp_all add: example_defs)
  from m d show ?thesis
    using fp8_mm_output_pointers [where L = example_library and a = example_a and b = example_b
      and result = example_result and scale_a = example_scale_a and scale_b = example_scale_b
      and scale_result = "Some example_scale_result" and algo_idx = 0 and padding_size = 0
      and g = initial_globals]
    by simp
qed

section \<open>The choice of the algorithm\<close>

lemma select_some:
  assumes "chosen_index L pref i = Some j"
  shows "\<exists>j64 c2. fp8_mm_select L pref i = (Inr j64, c2) \<and> ucast j64 = j"
  using assms
  by (auto simp: fp8_mm_select_def CHECK_HIPBLASLT_ERROR_def chosen_index_def ucast_scast_int
        Let_def split: if_splits prod.splits list.splits)

lemma select_none:
  assumes "chosen_index L pref i = None"
  shows "\<exists>e c2. fp8_mm_select L pref i = (Inl e, c2)"
  using assms
  by (auto simp: fp8_mm_select_def CHECK_HIPBLASLT_ERROR_def chosen_index_def
        Let_def split: if_splits prod.splits list.splits)

lemma launch_asks_index:
  "Call_getAlgosFromIndex h' idx \<in> set (snd (fp8_mm_launch L g h s j)) \<longleftrightarrow>
     h' = h \<and> idx = [ucast j]"
  by (auto simp: fp8_mm_launch_def CHECK_HIPBLASLT_ERROR_def Let_def
        split: if_splits prod.splits list.splits)

lemma launch_initializes:
  "Call_initialize al w \<in> set (snd (fp8_mm_launch L g h s j)) \<longleftrightarrow>
     (\<exists>t ts. getAlgosFromIndex L h [ucast j] = (HIPBLAS_STATUS_SUCCESS, t # ts) \<and>
        al = algo t \<and> w = workspace g)"
  by (auto simp: fp8_mm_launch_def CHECK_HIPBLASLT_ERROR_def Let_def
        split: if_splits prod.splits list.splits)

lemma reached_calls:
  assumes "fp8_mm_requires a b result padding_size"
    and "length (strides a) = 2" and "length (strides b) = 2"
    and "infer_transpose (strides a) (sizes a) = Some ta"
    and "infer_transpose (strides b) (sizes b) = Some tb"
    and "setProblem L 0 (fp8_mm_args a b result scale_a scale_b scale_result padding_size
        (hipblas_out_type (dtype result)) ta tb) = HIPBLAS_STATUS_SUCCESS"
  shows "calls_of (fp8_mm L a b result scale_a scale_b scale_result algo_idx padding_size g) =
     [Call_setMaxWorkspaceBytes (workspace_size g),
      Call_Gemm (getCurrentCUDABlasLtHandle L)
        (sp_problemtype (fp8_mm_args a b result scale_a scale_b scale_result padding_size
           (hipblas_out_type (dtype result)) ta tb)),
      Call_setProblem (fp8_mm_args a b result scale_a scale_b scale_result padding_size
           (hipblas_out_type (dtype result)) ta tb)] @
     (case fp8_mm_select L \<lparr>maxWorkspaceBytes = workspace_size g\<rparr> algo_idx of
        (Inl ended, c2) \<Rightarrow> c2
      | (Inr j, c2) \<Rightarrow>
          c2 @ snd (fp8_mm_launch L g (getCurrentCUDABlasLtHandle L) (getCurrentCUDAStream L) j))"
  using assms(6)
  by (simp add: fp8_mm_reaches_problem [OF assms(1-5)] problem_assigned calls_of_def Let_def
        split: prod.splits sum.splits)

lemma reached_member:
  assumes "fp8_mm_requires a b result padding_size"
    and "length (strides a) = 2" and "length (strides b) = 2"
    and "infer_transpose (strides a) (sizes a) = Some ta"
    and "infer_transpose (strides b) (sizes b) = Some tb"
    and "setProblem L 0 (fp8_mm_args a b result scale_a scale_b scale_result padding_size
        (hipblas_out_type (dtype result)) ta tb) = HIPBLAS_STATUS_SUCCESS"
  shows "c \<in> set (calls_of (fp8_mm L a b result scale_a scale_b scale_result algo_idx
        padding_size g)) \<longleftrightarrow>
     c = Call_setMaxWorkspaceBytes (workspace_size g) \<or>
     c = Call_Gemm (getCurrentCUDABlasLtHandle L)
           (sp_problemtype (fp8_mm_args a b result scale_a scale_b scale_result padding_size
              (hipblas_out_type (dtype result)) ta tb)) \<or>
     c = Call_setProblem (fp8_mm_args a b result scale_a scale_b scale_result padding_size
           (hipblas_out_type (dtype result)) ta tb) \<or>
     c \<in> set (snd (fp8_mm_select L \<lparr>maxWorkspaceBytes = workspace_size g\<rparr> algo_idx)) \<or>
     (\<exists>j. fst (fp8_mm_select L \<lparr>maxWorkspaceBytes = workspace_size g\<rparr> algo_idx) = Inr j \<and>
        c \<in> set (snd (fp8_mm_launch L g (getCurrentCUDABlasLtHandle L)
                         (getCurrentCUDAStream L) j)))"
proof (cases "fp8_mm_select L \<lparr>maxWorkspaceBytes = workspace_size g\<rparr> algo_idx")
  case (Pair r c2)
  show ?thesis
  proof (cases r)
    case (Inl e)
    with Pair show ?thesis
      unfolding reached_calls [OF assms] by auto
  next
    case (Inr j)
    with Pair show ?thesis
      unfolding reached_calls [OF assms] by auto
  qed
qed

text \<open>
  C4, as amended. In a call that gets past \<open>setProblem\<close>: the heuristic is asked if and
  only if \<open>algo_idx = 0\<close>, and then for exactly one solution. \<open>getAlgosFromIndex\<close> is
  asked for one index and no other: the index of the first heuristic solution when
  \<open>algo_idx = 0\<close>, and otherwise the caller's \<open>algo_idx\<close> converted to \<open>int\<close>, which for
  a nonzero \<open>algo_idx\<close> within the range of \<open>int\<close> is \<open>algo_idx\<close> itself, hence not 0
  (it is not asked at all when the heuristic fails or finds nothing). The algorithm
  initialized, with the workspace, is the first one that \<open>getAlgosFromIndex\<close> gave for
  that index, and \<open>initialize\<close> is called whenever that lookup succeeds with an algorithm.
\<close>

theorem fp8_mm_algorithm_index:
  assumes "fp8_mm_requires a b result padding_size"
    and "length (strides a) = 2" and "length (strides b) = 2"
    and "infer_transpose (strides a) (sizes a) = Some ta"
    and "infer_transpose (strides b) (sizes b) = Some tb"
    and "setProblem L 0 (fp8_mm_args a b result scale_a scale_b scale_result padding_size
        (hipblas_out_type (dtype result)) ta tb) = HIPBLAS_STATUS_SUCCESS"
  shows "((\<exists>n p. Call_algoGetHeuristic n p \<in> set (calls_of (fp8_mm L a b result scale_a scale_b
            scale_result algo_idx padding_size g))) \<longleftrightarrow> algo_idx = 0) \<and>
   (\<forall>n p. Call_algoGetHeuristic n p \<in> set (calls_of (fp8_mm L a b result scale_a scale_b
        scale_result algo_idx padding_size g)) \<longrightarrow>
      n = 1 \<and> p = \<lparr>maxWorkspaceBytes = workspace_size g\<rparr>) \<and>
   (\<forall>h idx. Call_getAlgosFromIndex h idx \<in> set (calls_of (fp8_mm L a b result scale_a scale_b
        scale_result algo_idx padding_size g)) \<longleftrightarrow>
      h = getCurrentCUDABlasLtHandle L \<and>
      (\<exists>j. chosen_index L \<lparr>maxWorkspaceBytes = workspace_size g\<rparr> algo_idx = Some j \<and>
           idx = [j])) \<and>
   (\<forall>al w. Call_initialize al w \<in> set (calls_of (fp8_mm L a b result scale_a scale_b
        scale_result algo_idx padding_size g)) \<longleftrightarrow>
      (\<exists>j t ts. chosen_index L \<lparr>maxWorkspaceBytes = workspace_size g\<rparr> algo_idx = Some j \<and>
         getAlgosFromIndex L (getCurrentCUDABlasLtHandle L) [j] =
           (HIPBLAS_STATUS_SUCCESS, t # ts) \<and>
         al = algo t \<and> w = workspace g)) \<and>
   (algo_idx \<noteq> 0 \<longrightarrow>
      chosen_index L \<lparr>maxWorkspaceBytes = workspace_size g\<rparr> algo_idx = Some (ucast algo_idx)) \<and>
   (algo_idx \<noteq> 0 \<and> - (2 ^ 31) \<le> sint algo_idx \<and> sint algo_idx < 2 ^ 31 \<longrightarrow>
      sint (ucast algo_idx :: int_t) = sint algo_idx \<and> (ucast algo_idx :: int_t) \<noteq> 0)"
proof -
  let ?pref = "\<lparr>maxWorkspaceBytes = workspace_size g\<rparr>"
  let ?h = "getCurrentCUDABlasLtHandle L"
  let ?calls = "calls_of (fp8_mm L a b result scale_a scale_b scale_result algo_idx padding_size g)"
  let ?args = "fp8_mm_args a b result scale_a scale_b scale_result padding_size
           (hipblas_out_type (dtype result)) ta tb"
  let ?c1 = "[Call_setMaxWorkspaceBytes (workspace_size g), Call_Gemm ?h (sp_problemtype ?args),
      Call_setProblem ?args]"
  note member = reached_member [OF assms, of _ algo_idx g]
  have 1: "(\<exists>n p. Call_algoGetHeuristic n p \<in> set ?calls) \<longleftrightarrow> algo_idx = 0"
  proof
    assume "\<exists>n p. Call_algoGetHeuristic n p \<in> set ?calls"
    then show "algo_idx = 0"
      unfolding member by (auto dest: select_calls launch_calls)
  next
    assume z: "algo_idx = 0"
    have "Call_algoGetHeuristic 1 ?pref \<in> set (snd (fp8_mm_select L ?pref algo_idx))"
      unfolding z by (rule select_zero_calls)
    then have "Call_algoGetHeuristic 1 ?pref \<in> set ?calls"
      unfolding member by simp
    then show "\<exists>n p. Call_algoGetHeuristic n p \<in> set ?calls" by blast
  qed
  have 2: "\<forall>n p. Call_algoGetHeuristic n p \<in> set ?calls \<longrightarrow> n = 1 \<and> p = ?pref"
    unfolding member by (auto dest: select_calls launch_calls)
  have 3: "\<forall>h idx. Call_getAlgosFromIndex h idx \<in> set ?calls \<longleftrightarrow>
      h = ?h \<and> (\<exists>j. chosen_index L ?pref algo_idx = Some j \<and> idx = [j])"
  proof (intro allI)
    fix h idx
    have n: "Call_getAlgosFromIndex h idx \<notin> set (snd (fp8_mm_select L ?pref algo_idx))"
      by (auto dest: select_calls)
    show "Call_getAlgosFromIndex h idx \<in> set ?calls \<longleftrightarrow>
      h = ?h \<and> (\<exists>j. chosen_index L ?pref algo_idx = Some j \<and> idx = [j])"
    proof (cases "chosen_index L ?pref algo_idx")
      case None
      from select_none [OF None] obtain e c2 where s: "fp8_mm_select L ?pref algo_idx = (Inl e, c2)"
        by blast
      from n show ?thesis
        unfolding member by (simp add: s None)
    next
      case (Some j)
      from select_some [OF Some] obtain j64 c2 where
        s: "fp8_mm_select L ?pref algo_idx = (Inr j64, c2)" and u: "ucast j64 = j"
        by blast
      from n show ?thesis
        unfolding member by (auto simp: s Some u launch_asks_index)
    qed
  qed
  have 4: "\<forall>al w. Call_initialize al w \<in> set ?calls \<longleftrightarrow>
      (\<exists>j t ts. chosen_index L ?pref algo_idx = Some j \<and>
         getAlgosFromIndex L ?h [j] = (HIPBLAS_STATUS_SUCCESS, t # ts) \<and>
         al = algo t \<and> w = workspace g)"
  proof (intro allI)
    fix al w
    have n: "Call_initialize al w \<notin> set (snd (fp8_mm_select L ?pref algo_idx))"
      by (auto dest: select_calls)
    show "Call_initialize al w \<in> set ?calls \<longleftrightarrow>
      (\<exists>j t ts. chosen_index L ?pref algo_idx = Some j \<and>
         getAlgosFromIndex L ?h [j] = (HIPBLAS_STATUS_SUCCESS, t # ts) \<and>
         al = algo t \<and> w = workspace g)"
    proof (cases "chosen_index L ?pref algo_idx")
      case None
      from select_none [OF None] obtain e c2 where s: "fp8_mm_select L ?pref algo_idx = (Inl e, c2)"
        by blast
      from n show ?thesis
        unfolding member by (simp add: s None)
    next
      case (Some j)
      from select_some [OF Some] obtain j64 c2 where
        s: "fp8_mm_select L ?pref algo_idx = (Inr j64, c2)" and u: "ucast j64 = j"
        by blast
      from n show ?thesis
        unfolding member by (auto simp: s Some u launch_initializes)
    qed
  qed
  have 5: "algo_idx \<noteq> 0 \<longrightarrow> chosen_index L ?pref algo_idx = Some (ucast algo_idx)"
    by (simp add: chosen_index_def)
  have 6: "algo_idx \<noteq> 0 \<and> - (2 ^ 31) \<le> sint algo_idx \<and> sint algo_idx < 2 ^ 31 \<longrightarrow>
      sint (ucast algo_idx :: int_t) = sint algo_idx \<and> (ucast algo_idx :: int_t) \<noteq> 0"
  proof
    assume h: "algo_idx \<noteq> 0 \<and> - (2 ^ 31) \<le> sint algo_idx \<and> sint algo_idx < 2 ^ 31"
    then have s: "sint (ucast algo_idx :: int_t) = sint algo_idx"
      by (simp add: sint_narrow)
    from h have "sint algo_idx \<noteq> 0"
      by (simp add: signed_eq_0_iff)
    with s have "(ucast algo_idx :: int_t) \<noteq> 0"
      by (metis signed_eq_0_iff)
    with s show "sint (ucast algo_idx :: int_t) = sint algo_idx \<and> (ucast algo_idx :: int_t) \<noteq> 0"
      by simp
  qed
  from 1 2 3 4 5 6 show ?thesis by blast
qed

text \<open>
  The theorem at calls with \<open>algo_idx = 0\<close> (the heuristic's index 5 is asked) and
  \<open>algo_idx = 6\<close> (index 6 is asked, the heuristic is not).
\<close>

theorem fp8_mm_algorithm_index_witness:
  "Call_algoGetHeuristic 1 \<lparr>maxWorkspaceBytes = 0\<rparr>
     \<in> set (calls_of (fp8_mm example_library example_a example_b example_result example_scale_a
          example_scale_b None 0 0 initial_globals)) \<and>
   Call_getAlgosFromIndex 7 [5]
     \<in> set (calls_of (fp8_mm example_library example_a example_b example_result example_scale_a
          example_scale_b None 0 0 initial_globals)) \<and>
   Call_algoGetHeuristic 1 \<lparr>maxWorkspaceBytes = 0\<rparr>
     \<notin> set (calls_of (fp8_mm example_library example_a example_b example_result example_scale_a
          example_scale_b None 6 0 initial_globals)) \<and>
   Call_getAlgosFromIndex 7 [6]
     \<in> set (calls_of (fp8_mm example_library example_a example_b example_result example_scale_a
          example_scale_b None 6 0 initial_globals)) \<and>
   Call_getAlgosFromIndex 7 [5]
     \<notin> set (calls_of (fp8_mm example_library example_a example_b example_result example_scale_a
          example_scale_b None 6 0 initial_globals)) \<and>
   Call_initialize 42 0
     \<in> set (calls_of (fp8_mm example_library example_a example_b example_result example_scale_a
          example_scale_b None 6 0 initial_globals)) \<and>
   sint (ucast (6 :: int64_t) :: int_t) = sint (6 :: int64_t) \<and>
   (ucast (6 :: int64_t) :: int_t) \<noteq> 0"
proof -
  have s: "setProblem example_library 0 (fp8_mm_args example_a example_b example_result
      example_scale_a example_scale_b None 0 (hipblas_out_type (dtype example_result)) True False)
      = HIPBLAS_STATUS_SUCCESS"
    by (simp add: example_library_def)
  have w: "workspace_size initial_globals = 0" "workspace initial_globals = 0"
    "getCurrentCUDABlasLtHandle example_library = 7"
    by (simp_all add: initial_globals_def nullptr_def example_library_def)
  have l: "getAlgosFromIndex example_library 7 [6] = (HIPBLAS_STATUS_SUCCESS, [\<lparr>algo = 42\<rparr>])"
    by (simp add: example_library_def)
  note at_zero = fp8_mm_algorithm_index [OF example_requires(1) example_layout s,
      of 0 initial_globals]
  note at_six = fp8_mm_algorithm_index [OF example_requires(1) example_layout s,
      of 6 initial_globals]
  from at_zero [THEN conjunct1] obtain n p where asked: "Call_algoGetHeuristic n p
     \<in> set (calls_of (fp8_mm example_library example_a example_b example_result example_scale_a
          example_scale_b None 0 0 initial_globals))"
    by auto
  from at_zero [THEN conjunct2, THEN conjunct1, THEN spec, THEN spec, THEN mp, OF asked]
  have "n = 1 \<and> p = \<lparr>maxWorkspaceBytes = 0\<rparr>"
    unfolding w .
  with asked have 1: "Call_algoGetHeuristic 1 \<lparr>maxWorkspaceBytes = 0\<rparr>
     \<in> set (calls_of (fp8_mm example_library example_a example_b example_result example_scale_a
          example_scale_b None 0 0 initial_globals))"
    by simp
  from at_zero [THEN conjunct2, THEN conjunct2, THEN conjunct1, THEN spec, THEN spec,
      of 7 "[5]"]
  have 2: "Call_getAlgosFromIndex 7 [5]
     \<in> set (calls_of (fp8_mm example_library example_a example_b example_result example_scale_a
          example_scale_b None 0 0 initial_globals))"
    unfolding w by (simp add: example_chosen)
  from at_six [THEN conjunct1]
  have 3: "Call_algoGetHeuristic 1 \<lparr>maxWorkspaceBytes = 0\<rparr>
     \<notin> set (calls_of (fp8_mm example_library example_a example_b example_result example_scale_a
          example_scale_b None 6 0 initial_globals))"
    by auto
  from at_six [THEN conjunct2, THEN conjunct2, THEN conjunct1, THEN spec, THEN spec,
      of 7 "[6]"]
  have 4: "Call_getAlgosFromIndex 7 [6]
     \<in> set (calls_of (fp8_mm example_library example_a example_b example_result example_scale_a
          example_scale_b None 6 0 initial_globals))"
    unfolding w by (simp add: example_chosen)
  from at_six [THEN conjunct2, THEN conjunct2, THEN conjunct1, THEN spec, THEN spec,
      of 7 "[5]"]
  have 5: "Call_getAlgosFromIndex 7 [5]
     \<notin> set (calls_of (fp8_mm example_library example_a example_b example_result example_scale_a
          example_scale_b None 6 0 initial_globals))"
    unfolding w by (simp add: example_chosen)
  from at_six [THEN conjunct2, THEN conjunct2, THEN conjunct2, THEN conjunct1, THEN spec,
      THEN spec, of 42 0]
  have 6: "Call_initialize 42 0
     \<in> set (calls_of (fp8_mm example_library example_a example_b example_result example_scale_a
          example_scale_b None 6 0 initial_globals))"
    unfolding w by (simp add: example_chosen l)
  have r: "(6 :: int64_t) \<noteq> 0 \<and> - (2 ^ 31) \<le> sint (6 :: int64_t) \<and> sint (6 :: int64_t) < 2 ^ 31"
    by simp
  have 7: "sint (ucast (6 :: int64_t) :: int_t) = sint (6 :: int64_t) \<and>
      (ucast (6 :: int64_t) :: int_t) \<noteq> 0"
    by (rule at_six [THEN conjunct2, THEN conjunct2, THEN conjunct2, THEN conjunct2,
          THEN conjunct2, THEN mp]) (rule r)
  from 1 2 3 4 5 6 7 show ?thesis by blast
qed

text \<open>
  C4 as stated fails: \<open>algo_idx = 2^32\<close> is not 0, the heuristic is not asked, and
  the conversion on line 195 makes the index 0 of it.
\<close>

theorem fp8_mm_index_zero_requested:
  "(4294967296 :: int64_t) \<noteq> 0 \<and>
   drop 3 (calls_of (fp8_mm example_library example_a example_b example_result example_scale_a
       example_scale_b None 4294967296 0 initial_globals)) =
     [Call_getAlgosFromIndex 7 [0], Call_initialize 42 0, Call_run 3]"
  by (simp add: example_eval example_defs)

section \<open>The read of the heuristic result\<close>

lemma select_empty:
  assumes "algoGetHeuristic L 0 1 pref = (HIPBLAS_STATUS_SUCCESS, [])"
  shows "fp8_mm_select L pref 0 =
     (Inl (Check_error (Torch_check ''No valid solution found!'')),
      [Call_algoGetHeuristic 1 pref, Read_past_end ''heuristicResult'',
       Call_getIndexFromAlgo (algo (reserved_storage L))])"
  using assms by (simp add: fp8_mm_select_def CHECK_HIPBLASLT_ERROR_def)

lemma select_no_solution:
  assumes "fp8_mm_select L pref i = (Inl (Check_error (Torch_check ''No valid solution found!'')), c)"
  shows "i = 0 \<and> Read_past_end ''heuristicResult'' \<in> set c"
  using assms
  by (auto simp: fp8_mm_select_def CHECK_HIPBLASLT_ERROR_def Let_def
        split: if_splits prod.splits list.splits)

lemma problem_no_solution:
  assumes "fst (fp8_mm_problem L g a b result scale_a scale_b scale_result algo_idx padding_size
      ot ta tb) = Check_error (Torch_check ''No valid solution found!'')"
  shows "algo_idx = 0 \<and> Read_past_end ''heuristicResult'' \<in> set (snd (fp8_mm_problem L g a b
      result scale_a scale_b scale_result algo_idx padding_size ot ta tb))"
proof -
  from assms obtain x y where t: "ta = Some x" "tb = Some y"
    by (cases ta; cases tb) (simp_all add: fp8_mm_problem_def)
  obtain r c2 where s: "fp8_mm_select L \<lparr>maxWorkspaceBytes = workspace_size g\<rparr> algo_idx = (r, c2)"
    by (cases "fp8_mm_select L \<lparr>maxWorkspaceBytes = workspace_size g\<rparr> algo_idx")
  show ?thesis
  proof (cases r)
    case (Inl e)
    with assms s have "e = Check_error (Torch_check ''No valid solution found!'')"
      by (auto simp: t problem_assigned Let_def split: if_splits)
    with s Inl select_no_solution [of L _ algo_idx c2]
    have "algo_idx = 0 \<and> Read_past_end ''heuristicResult'' \<in> set c2"
      by simp
    with assms s Inl show ?thesis
      by (auto simp: t problem_assigned Let_def split: if_splits)
  next
    case (Inr j)
    with assms s
      launch_ended [of L g "getCurrentCUDABlasLtHandle L" "getCurrentCUDAStream L" j]
    show ?thesis
      by (auto simp: t problem_assigned Let_def split: if_splits prod.splits)
  qed
qed

lemma fp8_mm_shape:
  "(\<exists>e. (argument_check_error e \<or> e = Undefined_behaviour Out_of_bounds_read \<or>
         e = Assert_aborted) \<and>
        fp8_mm L a b result scale_a scale_b scale_result algo_idx padding_size g = (e, [], g)) \<or>
   fp8_mm L a b result scale_a scale_b scale_result algo_idx padding_size g =
     (fst (fp8_mm_problem L g a b result scale_a scale_b scale_result algo_idx padding_size
             (hipblas_out_type (dtype result)) (infer_transpose (strides a) (sizes a))
             (infer_transpose (strides b) (sizes b))),
      snd (fp8_mm_problem L g a b result scale_a scale_b scale_result algo_idx padding_size
             (hipblas_out_type (dtype result)) (infer_transpose (strides a) (sizes a))
             (infer_transpose (strides b) (sizes b))),
      g)"
proof (cases "fp8_mm_requires a b result padding_size")
  case False
  then show ?thesis
    by (auto simp: fp8_mm_def fp8_mm_requires_def argument_check_error_def Let_def)
next
  case True
  then show ?thesis
    by (auto simp: fp8_mm_past_checks split: prod.splits)
qed

text \<open>
  C10. With \<open>algo_idx = 0\<close> and a heuristic that succeeds with no solution, element 0 of
  the empty \<open>heuristicResult\<close> is read (line 191) and handed to \<open>getIndexFromAlgo\<close>
  before the emptiness check of line 192 raises its error; a call that got past
  \<open>setProblem\<close> ends with these three steps in this order. The check does not prevent the
  read: whenever an invocation ends with the error of line 192, the read past the end
  has been made.
\<close>

theorem heuristic_read_before_check:
  "(algoGetHeuristic L 0 1 pref = (HIPBLAS_STATUS_SUCCESS, []) \<longrightarrow>
      fp8_mm_select L pref 0 =
        (Inl (Check_error (Torch_check ''No valid solution found!'')),
         [Call_algoGetHeuristic 1 pref, Read_past_end ''heuristicResult'',
          Call_getIndexFromAlgo (algo (reserved_storage L))])) \<and>
   (fp8_mm_requires a b result padding_size \<and>
    length (strides a) = 2 \<and> length (strides b) = 2 \<and>
    infer_transpose (strides a) (sizes a) = Some ta \<and>
    infer_transpose (strides b) (sizes b) = Some tb \<and>
    setProblem L 0 (fp8_mm_args a b result scale_a scale_b scale_result padding_size
        (hipblas_out_type (dtype result)) ta tb) = HIPBLAS_STATUS_SUCCESS \<and>
    algoGetHeuristic L 0 1 \<lparr>maxWorkspaceBytes = workspace_size g\<rparr> =
      (HIPBLAS_STATUS_SUCCESS, []) \<longrightarrow>
      outcome_of (fp8_mm L a b result scale_a scale_b scale_result 0 padding_size g) =
        Check_error (Torch_check ''No valid solution found!'') \<and>
      drop 3 (calls_of (fp8_mm L a b result scale_a scale_b scale_result 0 padding_size g)) =
        [Call_algoGetHeuristic 1 \<lparr>maxWorkspaceBytes = workspace_size g\<rparr>,
         Read_past_end ''heuristicResult'',
         Call_getIndexFromAlgo (algo (reserved_storage L))]) \<and>
   (outcome_of (fp8_mm L a b result scale_a scale_b scale_result algo_idx padding_size g) =
      Check_error (Torch_check ''No valid solution found!'') \<longrightarrow>
    algo_idx = 0 \<and>
    Read_past_end ''heuristicResult''
      \<in> set (calls_of (fp8_mm L a b result scale_a scale_b scale_result algo_idx
              padding_size g)))"
proof (intro conjI impI)
  assume "algoGetHeuristic L 0 1 pref = (HIPBLAS_STATUS_SUCCESS, [])"
  then show "fp8_mm_select L pref 0 =
        (Inl (Check_error (Torch_check ''No valid solution found!'')),
         [Call_algoGetHeuristic 1 pref, Read_past_end ''heuristicResult'',
          Call_getIndexFromAlgo (algo (reserved_storage L))])"
    by (rule select_empty)
next
  assume h: "fp8_mm_requires a b result padding_size \<and>
    length (strides a) = 2 \<and> length (strides b) = 2 \<and>
    infer_transpose (strides a) (sizes a) = Some ta \<and>
    infer_transpose (strides b) (sizes b) = Some tb \<and>
    setProblem L 0 (fp8_mm_args a b result scale_a scale_b scale_result padding_size
        (hipblas_out_type (dtype result)) ta tb) = HIPBLAS_STATUS_SUCCESS \<and>
    algoGetHeuristic L 0 1 \<lparr>maxWorkspaceBytes = workspace_size g\<rparr> =
      (HIPBLAS_STATUS_SUCCESS, [])"
  then have s: "fp8_mm_select L \<lparr>maxWorkspaceBytes = workspace_size g\<rparr> 0 =
        (Inl (Check_error (Torch_check ''No valid solution found!'')),
         [Call_algoGetHeuristic 1 \<lparr>maxWorkspaceBytes = workspace_size g\<rparr>,
          Read_past_end ''heuristicResult'',
          Call_getIndexFromAlgo (algo (reserved_storage L))])"
    by (simp add: select_empty)
  from h have r: "fp8_mm L a b result scale_a scale_b scale_result 0 padding_size g =
     (case fp8_mm_problem L g a b result scale_a scale_b scale_result 0 padding_size
             (hipblas_out_type (dtype result)) (Some ta) (Some tb) of
        (ended, calls) \<Rightarrow> (ended, calls, g))"
    by (simp add: fp8_mm_reaches_problem)
  from h show "outcome_of (fp8_mm L a b result scale_a scale_b scale_result 0 padding_size g) =
        Check_error (Torch_check ''No valid solution found!'')"
    unfolding r by (simp add: problem_assigned s outcome_of_def Let_def)
  from h show "drop 3 (calls_of (fp8_mm L a b result scale_a scale_b scale_result 0
        padding_size g)) =
        [Call_algoGetHeuristic 1 \<lparr>maxWorkspaceBytes = workspace_size g\<rparr>,
         Read_past_end ''heuristicResult'',
         Call_getIndexFromAlgo (algo (reserved_storage L))]"
    unfolding r by (simp add: problem_assigned s calls_of_def Let_def)
next
  assume e: "outcome_of (fp8_mm L a b result scale_a scale_b scale_result algo_idx padding_size g) =
      Check_error (Torch_check ''No valid solution found!'')"
  have n: "\<not> argument_check_error (Check_error (Torch_check ''No valid solution found!''))"
    by (simp add: argument_check_error_def)
  from fp8_mm_shape [of L a b result scale_a scale_b scale_result algo_idx padding_size g] e n
  have p: "fp8_mm L a b result scale_a scale_b scale_result algo_idx padding_size g =
     (fst (fp8_mm_problem L g a b result scale_a scale_b scale_result algo_idx padding_size
             (hipblas_out_type (dtype result)) (infer_transpose (strides a) (sizes a))
             (infer_transpose (strides b) (sizes b))),
      snd (fp8_mm_problem L g a b result scale_a scale_b scale_result algo_idx padding_size
             (hipblas_out_type (dtype result)) (infer_transpose (strides a) (sizes a))
             (infer_transpose (strides b) (sizes b))),
      g)"
    by (auto simp: outcome_of_def)
  with e have "fst (fp8_mm_problem L g a b result scale_a scale_b scale_result algo_idx
      padding_size (hipblas_out_type (dtype result)) (infer_transpose (strides a) (sizes a))
      (infer_transpose (strides b) (sizes b))) =
      Check_error (Torch_check ''No valid solution found!'')"
    by (simp add: outcome_of_def)
  note q = problem_no_solution [OF this]
  from q show "algo_idx = 0"
    by (rule conjunct1)
  from q [THEN conjunct2] show "Read_past_end ''heuristicResult''
      \<in> set (calls_of (fp8_mm L a b result scale_a scale_b scale_result algo_idx
              padding_size g))"
    unfolding calls_of_def p by simp
qed

text \<open>The theorem at the library whose heuristic finds nothing.\<close>

theorem heuristic_read_before_check_witness:
  "fp8_mm_select no_solution_library \<lparr>maxWorkspaceBytes = 0\<rparr> 0 =
     (Inl (Check_error (Torch_check ''No valid solution found!'')),
      [Call_algoGetHeuristic 1 \<lparr>maxWorkspaceBytes = 0\<rparr>, Read_past_end ''heuristicResult'',
       Call_getIndexFromAlgo 99]) \<and>
   outcome_of (fp8_mm no_solution_library example_a example_b example_result example_scale_a
      example_scale_b None 0 0 initial_globals) =
     Check_error (Torch_check ''No valid solution found!'') \<and>
   drop 3 (calls_of (fp8_mm no_solution_library example_a example_b example_result
      example_scale_a example_scale_b None 0 0 initial_globals)) =
     [Call_algoGetHeuristic 1 \<lparr>maxWorkspaceBytes = 0\<rparr>, Read_past_end ''heuristicResult'',
      Call_getIndexFromAlgo 99] \<and>
   Read_past_end ''heuristicResult''
     \<in> set (calls_of (fp8_mm no_solution_library example_a example_b example_result
          example_scale_a example_scale_b None 0 0 initial_globals))"
proof -
  note inst = heuristic_read_before_check [where L = no_solution_library
      and pref = "\<lparr>maxWorkspaceBytes = 0\<rparr>" and a = example_a and b = example_b
      and result = example_result and scale_a = example_scale_a and scale_b = example_scale_b
      and scale_result = None and padding_size = 0 and g = initial_globals
      and ta = True and tb = False and algo_idx = 0]
  have w: "workspace_size initial_globals = 0"
    "algo (reserved_storage no_solution_library) = 99"
    by (simp_all add: initial_globals_def no_solution_library_def example_library_def)
  have e: "algoGetHeuristic no_solution_library 0 1 \<lparr>maxWorkspaceBytes = 0\<rparr> =
      (HIPBLAS_STATUS_SUCCESS, [])"
    "setProblem no_solution_library 0 (fp8_mm_args example_a example_b example_result
      example_scale_a example_scale_b None 0 (hipblas_out_type (dtype example_result)) True False)
      = HIPBLAS_STATUS_SUCCESS"
    by (simp_all add: no_solution_library_def example_library_def)
  have 1: "fp8_mm_select no_solution_library \<lparr>maxWorkspaceBytes = 0\<rparr> 0 =
     (Inl (Check_error (Torch_check ''No valid solution found!'')),
      [Call_algoGetHeuristic 1 \<lparr>maxWorkspaceBytes = 0\<rparr>, Read_past_end ''heuristicResult'',
       Call_getIndexFromAlgo (algo (reserved_storage no_solution_library))])"
    by (rule inst [THEN conjunct1, THEN mp]) (rule e(1))
  have 2: "outcome_of (fp8_mm no_solution_library example_a example_b example_result
      example_scale_a example_scale_b None 0 0 initial_globals) =
     Check_error (Torch_check ''No valid solution found!'') \<and>
   drop 3 (calls_of (fp8_mm no_solution_library example_a example_b example_result
      example_scale_a example_scale_b None 0 0 initial_globals)) =
     [Call_algoGetHeuristic 1 \<lparr>maxWorkspaceBytes = workspace_size initial_globals\<rparr>,
      Read_past_end ''heuristicResult'',
      Call_getIndexFromAlgo (algo (reserved_storage no_solution_library))]"
    by (rule inst [THEN conjunct2, THEN conjunct1, THEN mp])
      (simp add: e w example_requires(1) example_layout)
  from 2 have 3: "Read_past_end ''heuristicResult''
     \<in> set (calls_of (fp8_mm no_solution_library example_a example_b example_result
          example_scale_a example_scale_b None 0 0 initial_globals))"
    by (rule inst [THEN conjunct2, THEN conjunct2, THEN mp, THEN conjunct2, OF conjunct1])
  from 1 2 3 show ?thesis
    unfolding w by simp
qed

section \<open>The workspace and the status checks\<close>

lemma stoi_example: "stoi ''65536'' = Inr 65536"
  by (simp add: stoi_def isspace_def isdigit_def digits_value_def)

lemma create_example:
  "create_workspace sized_library initial_globals =
     (Returned, [Call_hipMalloc 67108864], example_globals)"
  by (simp add: create_workspace_def CHECK_HIP_ERROR_def get_hipblaslt_workspace_size_def
      sized_library_def example_library_def stoi_example initial_globals_def example_globals_def
      nullptr_def)

lemma stoi_range:
  assumes "stoi str = Inr v"
  shows "- (2 ^ 31) \<le> v \<and> v \<le> 2 ^ 31 - 1"
  using assms by (auto simp: stoi_def Let_def split: if_splits)

lemma kib_exact:
  assumes "0 \<le> v" and "v \<le> 2 ^ 31 - 1"
  shows "unat ((word_of_int v :: size_t) * 1024) = 1024 * nat v"
proof -
  have b: "v * 1024 < 2 ^ 64"
    using assms by simp
  have "(word_of_int v :: size_t) * 1024 = word_of_int (v * 1024)"
    by simp
  then have "uint ((word_of_int v :: size_t) * 1024) = take_bit 64 (v * 1024)"
    by (simp only: uint_word_of_int_eq) simp
  also have "\<dots> = v * 1024"
    using assms b by (simp add: take_bit_int_eq_self)
  finally have "uint ((word_of_int v :: size_t) * 1024) = v * 1024" .
  then have "unat ((word_of_int v :: size_t) * 1024) = nat (v * 1024)"
    by (simp only: unat_eq_nat_uint)
  also have "\<dots> = 1024 * nat v"
    using assms by (simp add: nat_mult_distrib)
  finally show ?thesis .
qed

lemma fp8_mm_globals:
  "globals_of (fp8_mm L a b result scale_a scale_b scale_result algo_idx padding_size g) = g"
  by (simp add: fp8_mm_def globals_of_def Let_def split: prod.splits)

lemma fp8_mm_call_cases:
  assumes "c \<in> set (calls_of (fp8_mm L a b result scale_a scale_b scale_result algo_idx
      padding_size g))"
  shows "c = Call_setMaxWorkspaceBytes (workspace_size g) \<or>
      (\<exists>pt. c = Call_Gemm (getCurrentCUDABlasLtHandle L) pt) \<or>
      (\<exists>args. c = Call_setProblem args) \<or>
      (\<exists>pref. c = Call_algoGetHeuristic 1 pref) \<or>
      c = Read_past_end ''heuristicResult'' \<or>
      (\<exists>al. c = Call_getIndexFromAlgo al) \<or>
      (\<exists>j. c = Call_getAlgosFromIndex (getCurrentCUDABlasLtHandle L) [j]) \<or>
      (\<exists>al. c = Call_initialize al (workspace g)) \<or>
      c = Call_run (getCurrentCUDAStream L)"
  using problem_calls [OF fp8_mm_calls [OF assms, THEN conjunct2]]
  by (auto dest!: select_calls launch_calls)

lemma fp8_mm_workspace_use:
  assumes "c \<in> set (calls_of (fp8_mm L a b result scale_a scale_b scale_result algo_idx
      padding_size g))"
  shows "call_name c \<noteq> ''hipMalloc'' \<and>
     (\<forall>n. c = Call_setMaxWorkspaceBytes n \<longrightarrow> n = workspace_size g) \<and>
     (\<forall>al w. c = Call_initialize al w \<longrightarrow> w = workspace g)"
  using fp8_mm_call_cases [OF assms] by auto

lemma fp8_mm_calls_globals:
  "snd (fp8_mm_calls cs g) = g \<and>
   (\<forall>(ended, calls) \<in> set (fst (fp8_mm_calls cs g)). \<forall>c \<in> set calls.
      call_name c \<noteq> ''hipMalloc'' \<and>
      (\<forall>n. c = Call_setMaxWorkspaceBytes n \<longrightarrow> n = workspace_size g) \<and>
      (\<forall>al w. c = Call_initialize al w \<longrightarrow> w = workspace g))"
proof (induction cs)
  case Nil
  show ?case by simp
next
  case (Cons x xs)
  obtain e cl g1 where r: "fp8_mm (c_library x) (c_a x) (c_b x) (c_result x) (c_scale_a x)
      (c_scale_b x) (c_scale_result x) (c_algo_idx x) (c_padding_size x) g = (e, cl, g1)"
    by (rule prod_cases3)
  from r fp8_mm_globals [of "c_library x" "c_a x" "c_b x" "c_result x" "c_scale_a x"
      "c_scale_b x" "c_scale_result x" "c_algo_idx x" "c_padding_size x" g]
  have g1: "g1 = g" by (simp add: globals_of_def)
  have here: "\<forall>c \<in> set cl. call_name c \<noteq> ''hipMalloc'' \<and>
      (\<forall>n. c = Call_setMaxWorkspaceBytes n \<longrightarrow> n = workspace_size g) \<and>
      (\<forall>al w. c = Call_initialize al w \<longrightarrow> w = workspace g)"
  proof
    fix c assume "c \<in> set cl"
    with r have "c \<in> set (calls_of (fp8_mm (c_library x) (c_a x) (c_b x) (c_result x)
      (c_scale_a x) (c_scale_b x) (c_scale_result x) (c_algo_idx x) (c_padding_size x) g))"
      by (simp add: calls_of_def)
    then show "call_name c \<noteq> ''hipMalloc'' \<and>
      (\<forall>n. c = Call_setMaxWorkspaceBytes n \<longrightarrow> n = workspace_size g) \<and>
      (\<forall>al w. c = Call_initialize al w \<longrightarrow> w = workspace g)"
      by (rule fp8_mm_workspace_use)
  qed
  obtain rs g2 where t: "fp8_mm_calls xs g = (rs, g2)"
    by (cases "fp8_mm_calls xs g")
  from Cons.IH t have ih: "g2 = g" "\<forall>(ended, calls) \<in> set rs. \<forall>c \<in> set calls.
      call_name c \<noteq> ''hipMalloc'' \<and>
      (\<forall>n. c = Call_setMaxWorkspaceBytes n \<longrightarrow> n = workspace_size g) \<and>
      (\<forall>al w. c = Call_initialize al w \<longrightarrow> w = workspace g)"
    by simp_all
  have "fp8_mm_calls (x # xs) g = ((e, cl) # rs, g2)"
    by (simp add: r g1 t)
  with ih here show ?case by simp
qed

lemma create_workspace_size:
  "workspace_size (globals_of (create_workspace L g)) = get_hipblaslt_workspace_size L"
  by (simp add: create_workspace_def CHECK_HIP_ERROR_def globals_of_def Let_def
        split: prod.splits)

text \<open>
  What holds of the workspace whenever \<open>create_workspace\<close> returns, and of any sequence of
  \<open>fp8_mm\<close> calls. \<open>workspace_size\<close> is 1024 times the integer that \<open>std::stoi\<close> reads
  from \<open>HIPBLASLT_WORKSPACE_SIZE\<close> (as \<open>size_t\<close>; exactly 1024 times it when it is not
  negative), and 32 * 1024 * 1024 when the variable is unset or \<open>std::stoi\<close> throws. A
  \<open>create_workspace\<close> that returns has called \<open>hipMalloc\<close> once, for that many bytes, and
  has stored the pointer it gave, or has called nothing when the size is 0. Any sequence
  of \<open>fp8_mm\<close> calls leaves \<open>workspace\<close> and \<open>workspace_size\<close> as they were, calls no
  \<open>hipMalloc\<close>, and gives \<open>setMaxWorkspaceBytes\<close> that \<open>workspace_size\<close> and
  \<open>initialize\<close> that \<open>workspace\<close> (the file has no call that frees).
\<close>

lemma workspace_kept:
  "workspace_size (globals_of (create_workspace L g)) =
     1024 * (case getenv L ''HIPBLASLT_WORKSPACE_SIZE'' of
               None \<Rightarrow> 32 * 1024
             | Some str \<Rightarrow> (case stoi str of Inr v \<Rightarrow> word_of_int v | Inl e \<Rightarrow> 32 * 1024)) \<and>
   (\<forall>str v. getenv L ''HIPBLASLT_WORKSPACE_SIZE'' = Some str \<and> stoi str = Inr v \<and> 0 \<le> v \<longrightarrow>
      unat (workspace_size (globals_of (create_workspace L g))) = 1024 * nat v) \<and>
   (getenv L ''HIPBLASLT_WORKSPACE_SIZE'' = None \<or>
    (\<exists>str e. getenv L ''HIPBLASLT_WORKSPACE_SIZE'' = Some str \<and> stoi str = Inl e) \<longrightarrow>
      unat (workspace_size (globals_of (create_workspace L g))) = 32 * 1024 * 1024) \<and>
   (outcome_of (create_workspace L g) = Returned \<longrightarrow>
      calls_of (create_workspace L g) =
        (if 0 < get_hipblaslt_workspace_size L
         then [Call_hipMalloc (get_hipblaslt_workspace_size L)] else []) \<and>
      workspace (globals_of (create_workspace L g)) =
        (if 0 < get_hipblaslt_workspace_size L
         then snd (hipMalloc L 0 (get_hipblaslt_workspace_size L)) else workspace g)) \<and>
   snd (fp8_mm_calls cs gs) = gs \<and>
   (\<forall>(ended, calls) \<in> set (fst (fp8_mm_calls cs gs)). \<forall>c \<in> set calls.
      call_name c \<noteq> ''hipMalloc'' \<and>
      (\<forall>n. c = Call_setMaxWorkspaceBytes n \<longrightarrow> n = workspace_size gs) \<and>
      (\<forall>al w. c = Call_initialize al w \<longrightarrow> w = workspace gs))"
proof (intro conjI allI impI)
  show "workspace_size (globals_of (create_workspace L g)) =
     1024 * (case getenv L ''HIPBLASLT_WORKSPACE_SIZE'' of
               None \<Rightarrow> 32 * 1024
             | Some str \<Rightarrow> (case stoi str of Inr v \<Rightarrow> word_of_int v | Inl e \<Rightarrow> 32 * 1024))"
    by (simp add: create_workspace_size get_hipblaslt_workspace_size_def
        split: option.splits sum.splits stoi_error.splits)
next
  fix str v
  assume h: "getenv L ''HIPBLASLT_WORKSPACE_SIZE'' = Some str \<and> stoi str = Inr v \<and> 0 \<le> v"
  then have "v \<le> 2 ^ 31 - 1"
    using stoi_range [of str v] by simp
  with h have "unat ((word_of_int v :: size_t) * 1024) = 1024 * nat v"
    by (intro kib_exact) simp_all
  with h show "unat (workspace_size (globals_of (create_workspace L g))) = 1024 * nat v"
    by (simp add: create_workspace_size get_hipblaslt_workspace_size_def)
next
  assume "getenv L ''HIPBLASLT_WORKSPACE_SIZE'' = None \<or>
    (\<exists>str e. getenv L ''HIPBLASLT_WORKSPACE_SIZE'' = Some str \<and> stoi str = Inl e)"
  then have "get_hipblaslt_workspace_size L = 32 * 1024 * 1024"
    by (auto simp: get_hipblaslt_workspace_size_def split: stoi_error.splits)
  then show "unat (workspace_size (globals_of (create_workspace L g))) = 32 * 1024 * 1024"
    by (simp add: create_workspace_size)
next
  assume "outcome_of (create_workspace L g) = Returned"
  then show "calls_of (create_workspace L g) =
        (if 0 < get_hipblaslt_workspace_size L
         then [Call_hipMalloc (get_hipblaslt_workspace_size L)] else [])"
    by (auto simp: create_workspace_def CHECK_HIP_ERROR_def outcome_of_def calls_of_def Let_def
        split: if_splits)
next
  assume "outcome_of (create_workspace L g) = Returned"
  then show "workspace (globals_of (create_workspace L g)) =
        (if 0 < get_hipblaslt_workspace_size L
         then snd (hipMalloc L 0 (get_hipblaslt_workspace_size L)) else workspace g)"
    by (auto simp: create_workspace_def CHECK_HIP_ERROR_def outcome_of_def globals_of_def Let_def
        split: if_splits)
next
  show "snd (fp8_mm_calls cs gs) = gs"
    by (simp add: fp8_mm_calls_globals)
next
  show "\<forall>(ended, calls) \<in> set (fst (fp8_mm_calls cs gs)). \<forall>c \<in> set calls.
      call_name c \<noteq> ''hipMalloc'' \<and>
      (\<forall>n. c = Call_setMaxWorkspaceBytes n \<longrightarrow> n = workspace_size gs) \<and>
      (\<forall>al w. c = Call_initialize al w \<longrightarrow> w = workspace gs)"
    using fp8_mm_calls_globals [of cs gs] by blast
qed

text \<open>
  The same at concrete environments: 65536 KiB asked in the environment, the default,
  and two calls of \<open>fp8_mm\<close> after a \<open>create_workspace\<close> that returned.
\<close>

lemma workspace_kept_example:
  "unat (workspace_size (globals_of (create_workspace sized_library initial_globals))) = 67108864 \<and>
   unat (workspace_size (globals_of (create_workspace example_library initial_globals))) = 33554432 \<and>
   create_workspace sized_library initial_globals =
     (Returned, [Call_hipMalloc 67108864], example_globals) \<and>
   snd (fp8_mm_calls [example_call, example_call] example_globals) = example_globals \<and>
   Call_initialize 42 4096 \<in> set (calls_of (fp8_mm example_library example_a example_b
      example_result example_scale_a example_scale_b None 0 0 example_globals))"
proof -
  note sized = workspace_kept [where L = sized_library and g = initial_globals
      and cs = "[example_call, example_call]" and gs = example_globals]
  note plain = workspace_kept [where L = example_library and g = initial_globals
      and cs = "[example_call, example_call]" and gs = example_globals]
  have e: "getenv sized_library ''HIPBLASLT_WORKSPACE_SIZE'' = Some ''65536'' \<and>
      stoi ''65536'' = Inr 65536 \<and> (0 :: int) \<le> 65536"
    by (simp add: sized_library_def stoi_example)
  have 1: "unat (workspace_size (globals_of (create_workspace sized_library initial_globals))) =
      1024 * nat 65536"
    by (rule sized [THEN conjunct2, THEN conjunct1, THEN spec, THEN spec, THEN mp]) (rule e)
  have n: "getenv example_library ''HIPBLASLT_WORKSPACE_SIZE'' = None \<or>
    (\<exists>str e. getenv example_library ''HIPBLASLT_WORKSPACE_SIZE'' = Some str \<and> stoi str = Inl e)"
    by (simp add: example_library_def)
  have 2: "unat (workspace_size (globals_of (create_workspace example_library initial_globals))) =
      32 * 1024 * 1024"
    by (rule plain [THEN conjunct2, THEN conjunct2, THEN conjunct1, THEN mp]) (rule n)
  have 3: "snd (fp8_mm_calls [example_call, example_call] example_globals) = example_globals"
    by (rule sized [THEN conjunct2, THEN conjunct2, THEN conjunct2, THEN conjunct2, THEN conjunct1])
  have 4: "Call_initialize 42 4096 \<in> set (calls_of (fp8_mm example_library example_a example_b
      example_result example_scale_a example_scale_b None 0 0 example_globals))"
    by (simp add: example_eval example_defs example_globals_def)
  from 1 2 3 4 create_example show ?thesis
    by simp
qed

text \<open>
  C7 at a concrete environment. The first \<open>hipMalloc\<close> of \<open>create_workspace\<close> fails; the
  macro of lines 20-25 has pasted the call twice more among the arguments of \<open>fprintf\<close>,
  both of these succeed, each with a buffer of its own, and the process exits: one call
  of \<open>create_workspace\<close> has entered \<open>hipMalloc\<close> three times and allocated twice.
\<close>

theorem create_workspace_allocates_twice:
  "outcome_of (create_workspace flaky_malloc_library initial_globals) =
     Exit_failure (Hip_error hipSuccess hipSuccess) \<and>
   calls_of (create_workspace flaky_malloc_library initial_globals) =
     [Call_hipMalloc 33554432, Call_hipMalloc 33554432, Call_hipMalloc 33554432] \<and>
   hipMalloc flaky_malloc_library 0 33554432 = (hipFailure 2, 0) \<and>
   hipMalloc flaky_malloc_library 1 33554432 = (hipSuccess, 8192) \<and>
   hipMalloc flaky_malloc_library 2 33554432 = (hipSuccess, 12288)"
  by (simp add: create_workspace_def CHECK_HIP_ERROR_def get_hipblaslt_workspace_size_def
      flaky_malloc_library_def example_library_def initial_globals_def nullptr_def
      outcome_of_def calls_of_def)

text \<open>The number of \<open>hipMalloc\<close> calls of that \<open>create_workspace\<close>.\<close>

theorem create_workspace_allocates_twice_witness:
  "length (filter (\<lambda>c. call_name c = ''hipMalloc'')
     (calls_of (create_workspace flaky_malloc_library initial_globals))) = 3"
  using create_workspace_allocates_twice by simp

text \<open>
  C8 at a concrete call. \<open>run\<close> gives an error status on line 201; the macro of lines
  29-34 has pasted the call twice more among the arguments of \<open>fprintf\<close>, so \<open>run\<close> is
  entered three times, and the line printed before the exit names the statuses of the
  second and third call, not the one that was found to be an error.
\<close>

theorem fp8_mm_reenters_failed_call:
  "outcome_of (fp8_mm failing_run_library example_a example_b example_result example_scale_a
      example_scale_b None 0 0 initial_globals) =
     Exit_failure (HipBLASLt_error (HIPBLAS_STATUS_FAILURE 7) (HIPBLAS_STATUS_FAILURE 8)) \<and>
   map call_name (calls_of (fp8_mm failing_run_library example_a example_b example_result
      example_scale_a example_scale_b None 0 0 initial_globals)) =
     [''setMaxWorkspaceBytes'', ''Gemm'', ''setProblem'', ''algoGetHeuristic'',
      ''getIndexFromAlgo'', ''getAlgosFromIndex'', ''initialize'', ''run'', ''run'', ''run''] \<and>
   run failing_run_library 0 3 = HIPBLAS_STATUS_FAILURE 6"
  by (simp add: example_eval example_defs failing_run_library_def)

text \<open>The last three calls of that invocation.\<close>

theorem fp8_mm_reenters_failed_call_witness:
  "drop 7 (map call_name (calls_of (fp8_mm failing_run_library example_a example_b
      example_result example_scale_a example_scale_b None 0 0 initial_globals))) =
     [''run'', ''run'', ''run'']"
  using fp8_mm_reenters_failed_call by simp

end
